theory Spec2Isabelle
  imports Complex_Main "HOL-Library.Multiset"
begin

section \<open>Preference-driven ranking and query biasing of otodoki2web\<close>

text \<open>
  A shallow embedding of the backend's preference analyzer
  (\<^verbatim>\<open>app/services/preference_analyzer.py\<close>), personalization service
  (\<^verbatim>\<open>app/services/personalization.py\<close>), user-preference search strategy
  (\<^verbatim>\<open>app/services/search_strategies/user_preference_search.py\<close>) and strategy
  registry (\<^verbatim>\<open>app/services/search_strategies/__init__.py\<close>).

  Python values are modelled as follows. An \<^verbatim>\<open>int\<close> is an \<open>int\<close>, a score
  (\<^verbatim>\<open>float\<close>, always a sum of small whole numbers here) is a \<open>real\<close>, a
  \<^verbatim>\<open>str\<close> is a \<open>string\<close>, and an optional attribute is an \<open>option\<close>.
  A raised exception is a value \<open>Inl e\<close> of a sum type; the exceptions modelled are the
  instances of \<^verbatim>\<open>Exception\<close>, which is what the handlers of the code name.
  Calls of the logger return nothing and change nothing the code reads; they are left
  out.
\<close>

subsection \<open>Exceptions\<close>

datatype exn_class =
  ImportError | ModuleNotFoundError | AttributeError | IndexError | TypeError
  | SyntaxError | RuntimeError | SQLAlchemyError

datatype exn = Exn (exn_class: exn_class) (message: string) (cause: "exn option")

text \<open>\<^verbatim>\<open>isinstance(e, ImportError)\<close>: \<^verbatim>\<open>ModuleNotFoundError\<close> derives from
  \<^verbatim>\<open>ImportError\<close>.\<close>

fun is_import_error :: "exn_class \<Rightarrow> bool" where
  "is_import_error ImportError = True"
| "is_import_error ModuleNotFoundError = True"
| "is_import_error _ = False"

subsection \<open>Data model\<close>

datatype evaluation_status = LIKE | DISLIKE

text \<open>\<^verbatim>\<open>TrackCache\<close> (declared in \<^verbatim>\<open>app.db.models\<close>): the persisted catalog
  entry. The analyzer reads \<open>primary_genre\<close> and \<open>artist\<close>, either of which may be
  absent (\<open>None\<close>) or empty.\<close>

record track_cache =
  external_id :: string
  cache_title :: string
  cache_artist :: "string option"
  primary_genre :: "string option"

text \<open>\<^verbatim>\<open>Track\<close> (declared in \<^verbatim>\<open>app.models.track\<close>): the request-time DTO.\<close>

record track =
  track_id :: string
  title :: string
  artist :: "string option"
  genre :: "string option"
  album :: "string option"

datatype user = User (user_ident: string)

text \<open>The dataclass \<^verbatim>\<open>UserPreferences\<close>.\<close>

record user_preferences =
  liked_genres :: "(string \<times> int) list"
  liked_artists :: "(string \<times> int) list"
  disliked_genres :: "(string \<times> int) list"
  disliked_artists :: "(string \<times> int) list"
  total_likes :: int
  total_dislikes :: int

text \<open>\<^verbatim>\<open>[genre for genre, _ in self.liked_genres[:limit]]\<close>; a negative limit (which
  Python reads from the end of the list) is never passed by the code and is read as 0.\<close>

definition get_top_genres :: "user_preferences \<Rightarrow> nat \<Rightarrow> string list" where
  "get_top_genres self limit = map fst (take limit (liked_genres self))"

definition get_top_artists :: "user_preferences \<Rightarrow> nat \<Rightarrow> string list" where
  "get_top_artists self limit = map fst (take limit (liked_artists self))"

subsection \<open>Python built-ins the code relies on\<close>

text \<open>Truth value of an optional string: \<^verbatim>\<open>None\<close> and \<^verbatim>\<open>""\<close> are false.\<close>

fun truthy :: "string option \<Rightarrow> bool" where
  "truthy None = False"
| "truthy (Some s) = (s \<noteq> [])"

text \<open>\<^verbatim>\<open>dict(pairs)\<close>: a later pair overrides an earlier one with the same key.\<close>

definition dict_of :: "('k \<times> 'v) list \<Rightarrow> ('k \<rightharpoonup> 'v)" where
  "dict_of pairs = map_of (rev pairs)"

text \<open>\<^verbatim>\<open>list.sort(key=..., reverse=True)\<close> and \<^verbatim>\<open>sorted(..., reverse=True)\<close>: CPython
  reverses the list, sorts it with its stable ascending sort, and reverses the result.
  The stable ascending sort is \<open>sort_key\<close> (insertion sort).\<close>

definition sort_reverse :: "('a \<Rightarrow> 'b::linorder) \<Rightarrow> 'a list \<Rightarrow> 'a list" where
  "sort_reverse key xs = rev (sort_key key (rev xs))"

text \<open>\<^verbatim>\<open>collections.Counter(xs)\<close>: a dict from element to number of occurrences, its
  keys in order of first insertion; kept as an association list in that order.\<close>

fun counter_incr :: "'a \<Rightarrow> ('a \<times> int) list \<Rightarrow> ('a \<times> int) list" where
  "counter_incr x [] = [(x, 1)]"
| "counter_incr x ((k, c) # kvs) =
     (if x = k then (k, c + 1) # kvs else (k, c) # counter_incr x kvs)"

definition Counter :: "'a list \<Rightarrow> ('a \<times> int) list" where
  "Counter xs = foldl (\<lambda>acc x. counter_incr x acc) [] xs"

text \<open>\<^verbatim>\<open>Counter.most_common()\<close> is
  \<^verbatim>\<open>sorted(self.items(), key=itemgetter(1), reverse=True)\<close>.\<close>

definition most_common :: "('a \<times> int) list \<Rightarrow> ('a \<times> int) list" where
  "most_common counter = sort_reverse snd counter"

subsection \<open>The database session\<close>

text \<open>
  The two statements the analyzer executes select the cached tracks joined with the
  evaluations of one user and one status, so a statement is that pair. An \<^verbatim>\<open>AsyncSession\<close> answers
  a statement with rows or raises; it records every statement it was given.
\<close>

type_synonym statement = "string \<times> evaluation_status"

record async_session =
  answer :: "statement \<Rightarrow> exn + track_cache list"
  executed :: "statement list"

text \<open>Computations that read and change a state and may raise.\<close>

type_synonym ('s, 'a) io = "'s \<Rightarrow> (exn + 'a) \<times> 's"

definition io_return :: "'a \<Rightarrow> ('s, 'a) io" where
  "io_return v s = (Inr v, s)"

definition io_raise :: "exn \<Rightarrow> ('s, 'a) io" where
  "io_raise e s = (Inl e, s)"

definition io_bind :: "('s, 'a) io \<Rightarrow> ('a \<Rightarrow> ('s, 'b) io) \<Rightarrow> ('s, 'b) io" where
  "io_bind m f s = (case m s of (Inl e, s') \<Rightarrow> (Inl e, s') | (Inr v, s') \<Rightarrow> f v s')"

text \<open>\<^verbatim>\<open>try: m  except Exception as e: h(e)\<close>.\<close>

definition try_except :: "('s, 'a) io \<Rightarrow> (exn \<Rightarrow> ('s, 'a) io) \<Rightarrow> ('s, 'a) io" where
  "try_except m h s = (case m s of (Inl e, s') \<Rightarrow> h e s' | (Inr v, s') \<Rightarrow> (Inr v, s'))"

text \<open>\<^verbatim>\<open>list((await self.session.execute(query)).scalars().all())\<close>.\<close>

definition execute :: "statement \<Rightarrow> (async_session, track_cache list) io" where
  "execute q s = (answer s q, s\<lparr>executed := executed s @ [q]\<rparr>)"

subsection \<open>Preference analyzer\<close>

definition count_genres :: "track_cache list \<Rightarrow> (string \<times> int) list" where
  "count_genres tracks =
     most_common (Counter (map (\<lambda>t. the (primary_genre t))
       (filter (\<lambda>t. truthy (primary_genre t)) tracks)))"

definition count_artists :: "track_cache list \<Rightarrow> (string \<times> int) list" where
  "count_artists tracks =
     most_common (Counter (map (\<lambda>t. the (cache_artist t))
       (filter (\<lambda>t. truthy (cache_artist t)) tracks)))"

definition analyze_preferences ::
  "string \<Rightarrow> int \<Rightarrow> (async_session, user_preferences option) io" where
  "analyze_preferences user_id min_likes =
     try_except
       (io_bind (execute (user_id, LIKE)) (\<lambda>liked_tracks.
        io_bind (execute (user_id, DISLIKE)) (\<lambda>disliked_tracks.
          if int (length liked_tracks) < min_likes then io_return None
          else io_return (Some
            \<lparr> liked_genres = count_genres liked_tracks,
              liked_artists = count_artists liked_tracks,
              disliked_genres = count_genres disliked_tracks,
              disliked_artists = count_artists disliked_tracks,
              total_likes = int (length liked_tracks),
              total_dislikes = int (length disliked_tracks) \<rparr>))))
       (\<lambda>e. io_return None)"

subsection \<open>Personalization service\<close>

text \<open>\<^verbatim>\<open>_score_track\<close>: the score starts at 0.0 and is updated in place by each
  clause that applies.\<close>

definition score_track :: "track \<Rightarrow> user_preferences \<Rightarrow> real" where
  "score_track track preferences =
     (let score = 0;
          score =
            (if truthy (genre track) then
               (let genre_dict = dict_of (liked_genres preferences);
                    score = (case genre_dict (the (genre track)) of
                               Some c \<Rightarrow> score + (10 + real_of_int c)
                             | None \<Rightarrow> score);
                    disliked_genre_dict = dict_of (disliked_genres preferences)
                in (case disliked_genre_dict (the (genre track)) of
                      Some c \<Rightarrow> score - 5
                    | None \<Rightarrow> score))
             else score);
          score =
            (if truthy (artist track) then
               (let artist_dict = dict_of (liked_artists preferences);
                    score = (case artist_dict (the (artist track)) of
                               Some c \<Rightarrow> score + (15 + real_of_int c * 2)
                             | None \<Rightarrow> score);
                    disliked_artist_dict = dict_of (disliked_artists preferences)
                in (case disliked_artist_dict (the (artist track)) of
                      Some c \<Rightarrow> score - 10
                    | None \<Rightarrow> score))
             else score)
      in score)"

text \<open>The list comprehension that scores every track: it stops at the first score that
  raises.\<close>

fun score_all :: "('t \<Rightarrow> exn + real) \<Rightarrow> 't list \<Rightarrow> exn + ('t \<times> real) list" where
  "score_all f [] = Inr []"
| "score_all f (t # ts) =
     (case f t of
        Inl e \<Rightarrow> Inl e
      | Inr sc \<Rightarrow> (case score_all f ts of Inl e \<Rightarrow> Inl e | Inr rest \<Rightarrow> Inr ((t, sc) # rest)))"

definition io_of :: "exn + 'a \<Rightarrow> ('s, 'a) io" where
  "io_of r s = (r, s)"

text \<open>\<^verbatim>\<open>personalize_tracks\<close> with its two collaborators as parameters: the analyzer's
  \<^verbatim>\<open>analyze_preferences\<close> (\<^verbatim>\<open>self.analyzer\<close>) and the scoring method
  (\<^verbatim>\<open>self._score_track\<close>), either of which may raise.\<close>

definition personalize_tracks_with ::
  "(string \<Rightarrow> int \<Rightarrow> (async_session, user_preferences option) io) \<Rightarrow>
   (track \<Rightarrow> user_preferences \<Rightarrow> exn + real) \<Rightarrow>
   track list \<Rightarrow> user \<Rightarrow> int \<Rightarrow> (async_session, track list) io" where
  "personalize_tracks_with analyze score tracks user min_likes =
     (if tracks = [] then io_return tracks
      else try_except
        (io_bind (analyze (user_ident user) min_likes) (\<lambda>preferences.
           case preferences of
             None \<Rightarrow> io_return tracks
           | Some p \<Rightarrow>
               io_bind (io_of (score_all (\<lambda>t. score t p) tracks)) (\<lambda>scored_tracks.
                 io_return (map fst (sort_reverse snd scored_tracks)))))
        (\<lambda>e. io_return tracks))"

text \<open>The service as the repository builds it: the analyzer and the scoring method above;
  the scoring method does not raise.\<close>

definition personalize_tracks :: "track list \<Rightarrow> user \<Rightarrow> int \<Rightarrow> (async_session, track list) io" where
  "personalize_tracks =
     personalize_tracks_with analyze_preferences (\<lambda>t p. Inr (score_track t p))"

subsection \<open>User-preference search strategy\<close>

text \<open>
  The module \<^verbatim>\<open>random\<close>: a source of floats for \<^verbatim>\<open>random.random()\<close> and of
  whole numbers for \<^verbatim>\<open>random.choice\<close>, which takes the element at that number
  modulo the length and raises \<^verbatim>\<open>IndexError\<close> on an empty sequence. Each call
  consumes one number of its kind. The floats are reals, and the literal
  \<^verbatim>\<open>0.7\<close> is the real 7/10.
\<close>

record random_state =
  floats :: "nat \<Rightarrow> real"
  picks :: "nat \<Rightarrow> nat"
  float_calls :: nat
  choice_calls :: nat

record user_preference_search_strategy =
  session :: "async_session option"
  user_id :: "string option"
  preferences :: "user_preferences option"
  preferences_loaded :: bool

text \<open>\<^verbatim>\<open>__init__\<close>: nothing is loaded yet.\<close>

definition init_strategy ::
  "async_session option \<Rightarrow> string option \<Rightarrow> user_preference_search_strategy" where
  "init_strategy sess uid =
     \<lparr> session = sess, user_id = uid, preferences = None, preferences_loaded = False \<rparr>"

type_synonym world = "user_preference_search_strategy \<times> random_state"

text \<open>Search parameters: the dict literal, as its items in order.\<close>

type_synonym params = "(string \<times> string) list"

definition random_random :: "(world, real) io" where
  "random_random w =
     (case w of (self, rnd) \<Rightarrow>
        (Inr (floats rnd (float_calls rnd)),
         (self, rnd\<lparr>float_calls := float_calls rnd + 1\<rparr>)))"

definition random_choice :: "'a list \<Rightarrow> (world, 'a) io" where
  "random_choice seq w =
     (case w of (self, rnd) \<Rightarrow>
        (if seq = [] then (Inl (Exn IndexError ''Cannot choose from an empty sequence'' None), w)
         else (Inr (seq ! (picks rnd (choice_calls rnd) mod length seq)),
               (self, rnd\<lparr>choice_calls := choice_calls rnd + 1\<rparr>))))"

definition default_terms :: "string list" where
  "default_terms = [''pop'', ''rock'', ''jazz'', ''electronic'', ''indie'']"

definition fallback_params :: "(world, params) io" where
  "fallback_params =
     io_bind (random_choice default_terms) (\<lambda>term.
       io_return [(''term'', term), (''entity'', ''song'')])"

text \<open>
  \<^verbatim>\<open>_load_preferences\<close>. \<^verbatim>\<open>generate_params\<close> calls it only on a strategy that has a
  session and a user id. Without a session the analyzer's
  \<^verbatim>\<open>self.session.execute\<close> raises \<^verbatim>\<open>AttributeError\<close>, which
  \<^verbatim>\<open>analyze_preferences\<close> catches, returning \<^verbatim>\<open>None\<close>; without a user id the
  statements select the evaluations of no user, fewer than 3, and the result is
  \<^verbatim>\<open>None\<close> as well.
\<close>

definition load_preferences :: "(world, unit) io" where
  "load_preferences =
     try_except
       (\<lambda>(self, rnd).
          case (session self, user_id self) of
            (Some sess, Some uid) \<Rightarrow>
              (case analyze_preferences uid 3 sess of
                 (Inl e, sess') \<Rightarrow> (Inl e, (self\<lparr>session := Some sess'\<rparr>, rnd))
               | (Inr p, sess') \<Rightarrow>
                   (Inr (), (self\<lparr>session := Some sess', preferences := p\<rparr>, rnd)))
          | _ \<Rightarrow> (Inr (), (self\<lparr>preferences := None\<rparr>, rnd)))
       (\<lambda>e (self, rnd). (Inr (), (self\<lparr>preferences := None\<rparr>, rnd)))"

definition genre_params :: "string \<Rightarrow> params" where
  "genre_params g = [(''term'', g), (''entity'', ''song''), (''attribute'', ''genreIndex'')]"

definition artist_params :: "string \<Rightarrow> params" where
  "artist_params a = [(''term'', a), (''entity'', ''song''), (''attribute'', ''artistTerm'')]"

definition generate_preference_based_params :: "(world, params) io" where
  "generate_preference_based_params w =
     (case preferences (fst w) of
        None \<Rightarrow> fallback_params w
      | Some p \<Rightarrow>
          io_bind random_random (\<lambda>x.
            let use_genre = (x < 0.7);
                top_genres = get_top_genres p 3
            in if use_genre \<and> top_genres \<noteq> [] then
                 io_bind (random_choice top_genres) (\<lambda>genre. io_return (genre_params genre))
               else
                 let top_artists = get_top_artists p 3
                 in if top_artists \<noteq> [] then
                      io_bind (random_choice top_artists) (\<lambda>artist.
                        io_return (artist_params artist))
                    else fallback_params) w)"

definition set_preferences_loaded :: "(world, unit) io" where
  "set_preferences_loaded w =
     (case w of (self, rnd) \<Rightarrow> (Inr (), (self\<lparr>preferences_loaded := True\<rparr>, rnd)))"

text \<open>The lazy load of \<^verbatim>\<open>generate_params\<close>:
  \<^verbatim>\<open>if not self._preferences_loaded: await self._load_preferences(); self._preferences_loaded = True\<close>.\<close>

definition ensure_preferences_loaded :: "(world, unit) io" where
  "ensure_preferences_loaded w =
     (if \<not> preferences_loaded (fst w)
      then io_bind load_preferences (\<lambda>_. set_preferences_loaded) w
      else io_return () w)"

definition generate_params :: "(world, params) io" where
  "generate_params w =
     (if session (fst w) = None \<or> \<not> truthy (user_id (fst w)) then fallback_params w
      else
        io_bind ensure_preferences_loaded
          (\<lambda>_ w'.
             if preferences (fst w') = None then fallback_params w'
             else generate_preference_based_params w') w)"

text \<open>Repeated invocations on one instance: the results of \<open>n\<close> calls, oldest first,
  stopping at a call that raises.\<close>

fun generate_params_times :: "nat \<Rightarrow> (world, params list) io" where
  "generate_params_times 0 = io_return []"
| "generate_params_times (Suc n) =
     io_bind generate_params (\<lambda>p.
       io_bind (generate_params_times n) (\<lambda>ps. io_return (p # ps)))"

subsection \<open>Strategy registry\<close>

text \<open>
  Modelled from the spec: the chart-keyword strategy class of
  \<^verbatim>\<open>search_strategies/chart_keyword.py\<close>, which is not among the sources; the registry
  special-cases its name to a fixed constructor without arguments, which succeeds.
  A strategy found by dynamic discovery is known by its class name.
\<close>

datatype strategy =
  ChartKeywordSearchStrategy
  | UserPreferenceSearchStrategy user_preference_search_strategy
  | DiscoveredStrategy string

text \<open>
  What \<^verbatim>\<open>vars(strategy_module).values()\<close> holds, as far as \<^verbatim>\<open>get_strategy\<close> tells
  its values apart: a class deriving from \<^verbatim>\<open>BaseSearchStrategy\<close> (with what calling
  it without arguments gives), \<^verbatim>\<open>BaseSearchStrategy\<close> itself, or anything else.
\<close>

datatype module_member =
  StrategySubclass string "exn + strategy"
  | BaseSearchStrategy
  | OtherValue

text \<open>\<^verbatim>\<open>importlib.import_module\<close>: the module's values in order, or the exception
  raised while importing.\<close>

type_synonym importer = "string \<Rightarrow> exn + module_member list"

text \<open>The keyword arguments the strategy's constructor declares; a keyword left out has
  its default \<^verbatim>\<open>None\<close>.\<close>

record strategy_kwargs =
  kw_session :: "async_session option"
  kw_user_id :: "string option"

fun first_strategy_class :: "module_member list \<Rightarrow> (exn + strategy) option" where
  "first_strategy_class [] = None"
| "first_strategy_class (StrategySubclass name made # objs) = Some made"
| "first_strategy_class (obj # objs) = first_strategy_class objs"

definition not_found_message :: "string \<Rightarrow> string" where
  "not_found_message strategy_name =
     ''Could not load search strategy '' @ [CHR 0x27] @ strategy_name @ [CHR 0x27] @
     ''. Ensure the module exists and defines a valid strategy class.''"

definition no_subclass_message :: "string \<Rightarrow> string" where
  "no_subclass_message strategy_name =
     ''No BaseSearchStrategy subclass found in module '' @
     [CHR 0x27] @ strategy_name @ [CHR 0x27] @ ''.''"

text \<open>\<^verbatim>\<open>except (ImportError, AttributeError)\<close>.\<close>

definition import_or_attribute_error :: "exn \<Rightarrow> bool" where
  "import_or_attribute_error e =
     (is_import_error (exn_class e) \<or> exn_class e = AttributeError)"

definition get_strategy_body :: "importer \<Rightarrow> string \<Rightarrow> strategy_kwargs \<Rightarrow> exn + strategy" where
  "get_strategy_body import_module strategy_name kwargs =
     (if strategy_name = ''chart_keyword'' then Inr ChartKeywordSearchStrategy
      else if strategy_name = ''user_preference_search'' then
        Inr (UserPreferenceSearchStrategy
               (init_strategy (kw_session kwargs) (kw_user_id kwargs)))
      else
        (case import_module (''app.services.search_strategies.'' @ strategy_name) of
           Inl e \<Rightarrow> Inl e
         | Inr strategy_module \<Rightarrow>
             (case first_strategy_class strategy_module of
                Some made \<Rightarrow> made
              | None \<Rightarrow> Inl (Exn ImportError (no_subclass_message strategy_name) None))))"

definition get_strategy :: "importer \<Rightarrow> string \<Rightarrow> strategy_kwargs \<Rightarrow> exn + strategy" where
  "get_strategy import_module strategy_name kwargs =
     (case get_strategy_body import_module strategy_name kwargs of
        Inl exc \<Rightarrow>
          (if import_or_attribute_error exc
           then Inl (Exn ImportError (not_found_message strategy_name) (Some exc))
           else Inl exc)
      | Inr made \<Rightarrow> Inr made)"

subsection \<open>Reference notions for the frequency tables\<close>

text \<open>The distinct elements of a list in the order in which a scan from the left meets
  them first.\<close>

fun first_seen :: "'a list \<Rightarrow> 'a list" where
  "first_seen [] = []"
| "first_seen (x # xs) = x # filter (\<lambda>y. y \<noteq> x) (first_seen xs)"

text \<open>The non-empty values of a field over a list of tracks, in scan order, and the
  number of tracks whose field is a given value.\<close>

fun field_values :: "('t \<Rightarrow> string option) \<Rightarrow> 't list \<Rightarrow> string list" where
  "field_values f [] = []"
| "field_values f (t # ts) =
     (case f t of
        None \<Rightarrow> field_values f ts
      | Some v \<Rightarrow> (if v = [] then field_values f ts else v # field_values f ts))"

definition occurrences :: "('t \<Rightarrow> string option) \<Rightarrow> 't list \<Rightarrow> string \<Rightarrow> int" where
  "occurrences f ts v = int (length (filter (\<lambda>t. f t = Some v) ts))"

subsection \<open>The data of the repository's tests\<close>

text \<open>The fixtures of \<^verbatim>\<open>tests/test_personalization.py\<close>: four cached tracks, of which
  the test user likes the first three and dislikes the fourth.\<close>

definition rock_song_1 :: track_cache where
  "rock_song_1 = \<lparr> external_id = ''1001'', cache_title = ''Rock Song 1'',
     cache_artist = Some ''Rock Band'', primary_genre = Some ''Rock'' \<rparr>"

definition pop_song_1 :: track_cache where
  "pop_song_1 = \<lparr> external_id = ''1002'', cache_title = ''Pop Song 1'',
     cache_artist = Some ''Pop Artist'', primary_genre = Some ''Pop'' \<rparr>"

definition rock_song_2 :: track_cache where
  "rock_song_2 = \<lparr> external_id = ''1003'', cache_title = ''Rock Song 2'',
     cache_artist = Some ''Rock Band'', primary_genre = Some ''Rock'' \<rparr>"

definition jazz_song :: track_cache where
  "jazz_song = \<lparr> external_id = ''1004'', cache_title = ''Jazz Song'',
     cache_artist = Some ''Jazz Artist'', primary_genre = Some ''Jazz'' \<rparr>"

definition test_user :: user where
  "test_user = User ''test-user''"

definition test_answer :: "statement \<Rightarrow> exn + track_cache list" where
  "test_answer q =
     (if fst q = ''test-user'' then
        (case snd q of
           LIKE \<Rightarrow> Inr [rock_song_1, pop_song_1, rock_song_2]
         | DISLIKE \<Rightarrow> Inr [jazz_song])
      else Inr [])"

definition test_session :: async_session where
  "test_session = \<lparr> answer = test_answer, executed = [] \<rparr>"

text \<open>A session whose every statement fails, and one that holds no evaluation.\<close>

definition broken_session :: async_session where
  "broken_session =
     \<lparr> answer = (\<lambda>q. Inl (Exn SQLAlchemyError ''connection lost'' None)), executed = [] \<rparr>"

definition empty_session :: async_session where
  "empty_session = \<lparr> answer = (\<lambda>q. Inr []), executed = [] \<rparr>"

definition new_rock_song :: track where
  "new_rock_song = \<lparr> track_id = ''2001'', title = ''New Rock Song'',
     artist = Some ''Rock Band'', genre = Some ''Rock'', album = Some ''New Album'' \<rparr>"

definition new_jazz_song :: track where
  "new_jazz_song = \<lparr> track_id = ''2002'', title = ''New Jazz Song'',
     artist = Some ''Jazz Artist'', genre = Some ''Jazz'', album = Some ''New Jazz Album'' \<rparr>"

definition new_pop_song :: track where
  "new_pop_song = \<lparr> track_id = ''2003'', title = ''New Pop Song'',
     artist = Some ''Pop Artist'', genre = Some ''Pop'', album = Some ''New Pop Album'' \<rparr>"

text \<open>The preferences the analyzer derives from the fixtures.\<close>

definition test_preferences :: user_preferences where
  "test_preferences =
     \<lparr> liked_genres = [(''Rock'', 2), (''Pop'', 1)],
       liked_artists = [(''Rock Band'', 2), (''Pop Artist'', 1)],
       disliked_genres = [(''Jazz'', 1)],
       disliked_artists = [(''Jazz Artist'', 1)],
       total_likes = 3, total_dislikes = 1 \<rparr>"

text \<open>The preferences of the scoring example: no disliked artist.\<close>

definition example_preferences :: user_preferences where
  "example_preferences =
     \<lparr> liked_genres = [(''Rock'', 2), (''Pop'', 1)],
       liked_artists = [(''Rock Band'', 2)],
       disliked_genres = [(''Jazz'', 1)],
       disliked_artists = [],
       total_likes = 3, total_dislikes = 1 \<rparr>"

text \<open>A session whose analysis is \<open>example_preferences\<close>: the liked pop track and the
  disliked jazz track carry no artist.\<close>

definition example_session :: async_session where
  "example_session =
     \<lparr> answer = (\<lambda>q. case snd q of
          LIKE \<Rightarrow> Inr [rock_song_1, pop_song_1\<lparr>cache_artist := None\<rparr>, rock_song_2]
        | DISLIKE \<Rightarrow> Inr [jazz_song\<lparr>cache_artist := Some []\<rparr>]),
       executed = [] \<rparr>"

text \<open>Collaborators for the service: an analyzer that returns a given profile, an analyzer
  that raises and a scoring method that raises.\<close>

definition constant_analyze ::
  "user_preferences \<Rightarrow> string \<Rightarrow> int \<Rightarrow> (async_session, user_preferences option) io" where
  "constant_analyze p uid min_likes = io_return (Some p)"

definition raising_analyze :: "string \<Rightarrow> int \<Rightarrow> (async_session, user_preferences option) io" where
  "raising_analyze uid min_likes = io_raise (Exn RuntimeError ''analyzer failed'' None)"

definition raising_score :: "track \<Rightarrow> user_preferences \<Rightarrow> exn + real" where
  "raising_score t p =
     (if genre t = Some ''Jazz'' then Inl (Exn TypeError ''unhashable type'' None)
      else Inr (score_track t p))"

definition fixed_random :: "real \<Rightarrow> nat \<Rightarrow> random_state" where
  "fixed_random x k =
     \<lparr> floats = (\<lambda>n. x), picks = (\<lambda>n. k), float_calls = 0, choice_calls = 0 \<rparr>"

text \<open>An extension point for the registry: no module \<^verbatim>\<open>does-not-exist\<close>, a module
  \<^verbatim>\<open>base\<close> that holds the base class only, a module \<^verbatim>\<open>random_keyword\<close> with one
  strategy class, a module \<^verbatim>\<open>broken\<close> whose source does not parse, and a module
  \<^verbatim>\<open>needs_args\<close> whose strategy class cannot be built without arguments.\<close>

definition test_import_module :: importer where
  "test_import_module path =
     (if path = ''app.services.search_strategies.base'' then
        Inr [OtherValue, BaseSearchStrategy]
      else if path = ''app.services.search_strategies.random_keyword'' then
        Inr [OtherValue, BaseSearchStrategy,
             StrategySubclass ''RandomKeywordSearchStrategy''
               (Inr (DiscoveredStrategy ''RandomKeywordSearchStrategy''))]
      else if path = ''app.services.search_strategies.broken'' then
        Inl (Exn SyntaxError ''invalid syntax'' None)
      else if path = ''app.services.search_strategies.needs_args'' then
        Inr [StrategySubclass ''NeedsArgsStrategy''
               (Inl (Exn TypeError ''missing 1 required positional argument'' None))]
      else Inl (Exn ModuleNotFoundError (''No module named '' @ path) None))"

definition no_kwargs :: strategy_kwargs where
  "no_kwargs = \<lparr> kw_session = None, kw_user_id = None \<rparr>"

section \<open>Properties\<close>

subsection \<open>The analyzer's threshold and totals\<close>

lemmas io_defs = io_return_def io_raise_def io_bind_def try_except_def io_of_def

lemma analyze_preferences_rows:
  assumes "answer s (u, LIKE) = Inr liked" and "answer s (u, DISLIKE) = Inr disliked"
  shows "analyze_preferences u m s =
    ((if int (length liked) < m then Inr None
      else Inr (Some \<lparr> liked_genres = count_genres liked,
              liked_artists = count_artists liked,
              disliked_genres = count_genres disliked,
              disliked_artists = count_artists disliked,
              total_likes = int (length liked),
              total_dislikes = int (length disliked) \<rparr>)),
     s\<lparr>executed := executed s @ [(u, LIKE), (u, DISLIKE)]\<rparr>)"
  using assms by (simp add: analyze_preferences_def io_defs execute_def)

lemma analyze_preferences_like_raises:
  assumes "answer s (u, LIKE) = Inl e"
  shows "analyze_preferences u m s = (Inr None, s\<lparr>executed := executed s @ [(u, LIKE)]\<rparr>)"
  using assms by (simp add: analyze_preferences_def io_defs execute_def)

lemma analyze_preferences_dislike_raises:
  assumes "answer s (u, LIKE) = Inr liked" and "answer s (u, DISLIKE) = Inl e"
  shows "analyze_preferences u m s =
    (Inr None, s\<lparr>executed := executed s @ [(u, LIKE), (u, DISLIKE)]\<rparr>)"
  using assms by (simp add: analyze_preferences_def io_defs execute_def)

lemma analyze_preferences_returns: "\<exists>r. fst (analyze_preferences u m s) = Inr r"
proof (cases "answer s (u, LIKE)")
  case (Inl e)
  then show ?thesis by (simp add: analyze_preferences_like_raises)
next
  case liked: (Inr liked)
  show ?thesis
  proof (cases "answer s (u, DISLIKE)")
    case (Inl e)
    with liked show ?thesis by (simp add: analyze_preferences_dislike_raises)
  next
    case (Inr disliked)
    with liked show ?thesis by (simp add: analyze_preferences_rows)
  qed
qed

text \<open>
  Claim C4. When both read queries of a user succeed, \<open>analyze_preferences\<close> returns
  absent exactly when the number of liked tracks is strictly below \<open>min_likes\<close>; any
  other session with the same liked tracks gives the same verdict, whatever it holds as
  disliked tracks; and a profile that is returned has \<open>total_likes\<close> the number of liked
  tracks and \<open>total_dislikes\<close> the number of disliked tracks.
\<close>

theorem analyze_preferences_threshold:
  assumes "answer s (uid, LIKE) = Inr liked"
    and "answer s (uid, DISLIKE) = Inr disliked"
  shows "(fst (analyze_preferences uid min_likes s) = Inr None
            \<longleftrightarrow> int (length liked) < min_likes)
    \<and> (\<forall>s' disliked'. answer s' (uid, LIKE) = Inr liked
          \<longrightarrow> answer s' (uid, DISLIKE) = Inr disliked'
          \<longrightarrow> (fst (analyze_preferences uid min_likes s') = Inr None
                \<longleftrightarrow> fst (analyze_preferences uid min_likes s) = Inr None))
    \<and> (min_likes \<le> int (length liked) \<longrightarrow>
         (\<exists>p. fst (analyze_preferences uid min_likes s) = Inr (Some p)
            \<and> total_likes p = int (length liked)
            \<and> total_dislikes p = int (length disliked)))"
  using assms by (simp add: analyze_preferences_rows)

theorem analyze_preferences_threshold_witness:
  "answer test_session (''test-user'', LIKE) = Inr [rock_song_1, pop_song_1, rock_song_2]
   \<and> answer test_session (''test-user'', DISLIKE) = Inr [jazz_song]
   \<and> fst (analyze_preferences ''test-user'' 10 test_session) = Inr None
   \<and> fst (analyze_preferences ''test-user'' 4 test_session) = Inr None
   \<and> (\<exists>p. fst (analyze_preferences ''test-user'' 3 test_session) = Inr (Some p)
          \<and> total_likes p = 3 \<and> total_dislikes p = 1)"
proof -
  have l: "answer test_session (''test-user'', LIKE) = Inr [rock_song_1, pop_song_1, rock_song_2]"
    by (simp add: test_session_def test_answer_def)
  have d: "answer test_session (''test-user'', DISLIKE) = Inr [jazz_song]"
    by (simp add: test_session_def test_answer_def)
  show ?thesis
    using l d analyze_preferences_threshold [OF l d, of 10]
      analyze_preferences_threshold [OF l d, of 4]
      analyze_preferences_threshold [OF l d, of 3]
    by simp
qed

text \<open>
  Claim C10. For \<open>min_likes \<le> 0\<close> and two succeeding read queries the analyzer always
  returns a profile; for a user without any evaluation it is the profile with four empty
  tables and both totals 0.
\<close>

theorem analyze_preferences_nonpositive_min_likes:
  assumes "min_likes \<le> 0"
    and "answer s (uid, LIKE) = Inr liked"
    and "answer s (uid, DISLIKE) = Inr disliked"
  shows "(\<exists>p. fst (analyze_preferences uid min_likes s) = Inr (Some p))
    \<and> (liked = [] \<and> disliked = [] \<longrightarrow>
         fst (analyze_preferences uid min_likes s) =
           Inr (Some \<lparr> liked_genres = [], liked_artists = [], disliked_genres = [],
                  disliked_artists = [], total_likes = 0, total_dislikes = 0 \<rparr>))"
  using assms
  by (auto simp add: analyze_preferences_rows count_genres_def count_artists_def
      Counter_def most_common_def sort_reverse_def)

theorem analyze_preferences_nonpositive_min_likes_witness:
  "(0::int) \<le> 0 \<and> answer empty_session (''nobody'', LIKE) = Inr []
   \<and> answer empty_session (''nobody'', DISLIKE) = Inr []
   \<and> fst (analyze_preferences ''nobody'' 0 empty_session) =
           Inr (Some \<lparr> liked_genres = [], liked_artists = [], disliked_genres = [],
                  disliked_artists = [], total_likes = 0, total_dislikes = 0 \<rparr>)
   \<and> fst (analyze_preferences ''nobody'' (- 2) empty_session) =
           Inr (Some \<lparr> liked_genres = [], liked_artists = [], disliked_genres = [],
                  disliked_artists = [], total_likes = 0, total_dislikes = 0 \<rparr>)"
proof -
  have l: "answer empty_session (''nobody'', LIKE) = Inr []"
    by (simp add: empty_session_def)
  have d: "answer empty_session (''nobody'', DISLIKE) = Inr []"
    by (simp add: empty_session_def)
  have z: "(0::int) \<le> 0" and n: "(- 2::int) \<le> 0" by simp_all
  show ?thesis
    using l d analyze_preferences_nonpositive_min_likes [OF z l d]
      analyze_preferences_nonpositive_min_likes [OF n l d]
    by simp
qed

subsection \<open>Sorting in descending order\<close>

lemma mset_sort_reverse: "mset (sort_reverse key xs) = mset xs"
  by (simp add: sort_reverse_def)

lemma sorted_sort_reverse: "sorted_wrt (\<lambda>a b. key b \<le> key a) (sort_reverse key xs)"
  using sorted_sort_key [of key "rev xs"]
  by (simp add: sort_reverse_def sorted_wrt_rev sorted_map)

lemma sort_reverse_stable:
  "filter (\<lambda>y. key y = k) (sort_reverse key xs) = filter (\<lambda>y. key y = k) xs"
  by (simp add: sort_reverse_def rev_filter [symmetric] sort_key_stable)

lemma insort_key_map:
  "insort_key f (g x) (map g xs) = map g (insort_key (\<lambda>y. f (g y)) x xs)"
  by (induction xs) simp_all

lemma sort_key_map: "sort_key f (map g xs) = map g (sort_key (\<lambda>y. f (g y)) xs)"
  by (induction xs) (simp_all add: insort_key_map)

lemma sort_reverse_scored:
  "map fst (sort_reverse snd (map (\<lambda>t. (t, f t)) ts)) = sort_reverse f ts"
proof -
  have "sort_key snd (rev (map (\<lambda>t. (t, f t)) ts)) = map (\<lambda>t. (t, f t)) (sort_key f (rev ts))"
    by (simp add: rev_map sort_key_map)
  then show ?thesis
    by (simp add: sort_reverse_def rev_map [symmetric] o_def)
qed

lemma score_all_total: "score_all (\<lambda>t. Inr (f t)) ts = Inr (map (\<lambda>t. (t, f t)) ts)"
  by (induction ts) simp_all

lemma score_all_tracks: "score_all f ts = Inr scored \<Longrightarrow> map fst scored = ts"
  by (induction ts arbitrary: scored) (auto split: sum.splits)

lemma score_all_raises:
  "t \<in> set ts \<Longrightarrow> f t = Inl e \<Longrightarrow> \<exists>e'. score_all f ts = Inl e'"
  by (induction ts) (auto split: sum.splits)

subsection \<open>The personalization service\<close>

text \<open>What the general service returns, by the outcome of the analysis.\<close>

lemma personalize_with_empty:
  "personalize_tracks_with analyze score [] user m s = (Inr [], s)"
  by (simp add: personalize_tracks_with_def io_defs)

lemma personalize_with_analysis_raises:
  assumes "fst (analyze (user_ident user) m s) = Inl e"
  shows "fst (personalize_tracks_with analyze score tracks user m s) = Inr tracks"
  using assms
  by (cases "analyze (user_ident user) m s")
    (simp add: personalize_tracks_with_def io_defs)

lemma personalize_with_absent:
  assumes "fst (analyze (user_ident user) m s) = Inr None"
  shows "fst (personalize_tracks_with analyze score tracks user m s) = Inr tracks"
  using assms
  by (cases "analyze (user_ident user) m s")
    (simp add: personalize_tracks_with_def io_defs)

lemma personalize_with_present:
  assumes "fst (analyze (user_ident user) m s) = Inr (Some p)" and "tracks \<noteq> []"
  shows "fst (personalize_tracks_with analyze score tracks user m s) =
    (case score_all (\<lambda>t. score t p) tracks of
       Inl e \<Rightarrow> Inr tracks
     | Inr scored \<Rightarrow> Inr (map fst (sort_reverse snd scored)))"
  using assms
  by (cases "analyze (user_ident user) m s")
    (simp add: personalize_tracks_with_def io_defs split: sum.splits)

lemma personalize_with_state:
  "tracks \<noteq> [] \<Longrightarrow>
   snd (personalize_tracks_with analyze score tracks user m s) =
   snd (analyze (user_ident user) m s)"
  by (cases "analyze (user_ident user) m s")
    (auto simp add: personalize_tracks_with_def io_defs split: sum.splits option.splits)

lemma personalize_with_scored:
  assumes "fst (analyze (user_ident user) m s) = Inr (Some p)"
  shows "fst (personalize_tracks_with analyze (\<lambda>t q. Inr (f t q)) tracks user m s) =
    Inr (sort_reverse (\<lambda>t. f t p) tracks)"
proof (cases "tracks = []")
  case True
  then show ?thesis
    by (simp add: personalize_with_empty sort_reverse_def)
next
  case False
  with assms show ?thesis
    by (simp add: personalize_with_present score_all_total sort_reverse_scored)
qed

lemma personalize_tracks_present:
  assumes "fst (analyze_preferences (user_ident user) m s) = Inr (Some p)"
  shows "fst (personalize_tracks tracks user m s) =
    Inr (sort_reverse (\<lambda>t. score_track t p) tracks)"
  using assms by (simp add: personalize_tracks_def personalize_with_scored)


lemma personalize_with_returns:
  "\<exists>ts. fst (personalize_tracks_with analyze score tracks user m s) = Inr ts
      \<and> mset ts = mset tracks"
proof (cases "tracks = []")
  case True
  then show ?thesis by (simp add: personalize_with_empty)
next
  case False
  show ?thesis
  proof (cases "fst (analyze (user_ident user) m s)")
    case (Inl e)
    then show ?thesis by (simp add: personalize_with_analysis_raises)
  next
    case (Inr preferences)
    show ?thesis
    proof (cases preferences)
      case None
      with Inr show ?thesis by (simp add: personalize_with_absent)
    next
      case (Some p)
      show ?thesis
      proof (cases "score_all (\<lambda>t. score t p) tracks")
        case (Inl e)
        with Inr Some False show ?thesis by (simp add: personalize_with_present)
      next
        case scored: (Inr scored)
        have "mset (map fst (sort_reverse snd scored)) = mset (map fst scored)"
          by (simp add: mset_sort_reverse)
        also have "\<dots> = mset tracks"
          using scored by (simp add: score_all_tracks)
        finally show ?thesis
          using Inr Some False scored by (simp add: personalize_with_present)
      qed
    qed
  qed
qed

lemma personalize_with_score_raises:
  assumes "fst (analyze (user_ident user) m s) = Inr (Some p)"
    and "t \<in> set tracks" and "score t p = Inl e"
  shows "fst (personalize_tracks_with analyze score tracks user m s) = Inr tracks"
proof -
  from assms(2) have ne: "tracks \<noteq> []" by auto
  from assms(2,3) obtain e' where "score_all (\<lambda>t. score t p) tracks = Inl e'"
    using score_all_raises [of t tracks "\<lambda>t. score t p" e] by blast
  with assms(1) ne show ?thesis by (simp add: personalize_with_present)
qed

text \<open>
  Claim C1. \<open>personalize_tracks\<close> always returns a list, and that list is a permutation
  of its input. For an empty input it returns the input and leaves the session as it
  was: no statement is executed, so the analyzer is not invoked. When the analyzer
  reports an absent profile, and when a read query raises, it returns the input in its
  order. The same holds for the service with any analyzer and scoring method in place
  of the repository's, where the handler also catches an analyzer or a scoring method
  that raises.
\<close>

theorem personalize_tracks_permutation:
  "(\<exists>ts. fst (personalize_tracks tracks user m s) = Inr ts \<and> mset ts = mset tracks)
   \<and> (tracks = [] \<longrightarrow> personalize_tracks tracks user m s = (Inr tracks, s))
   \<and> (fst (analyze_preferences (user_ident user) m s) = Inr None
        \<longrightarrow> fst (personalize_tracks tracks user m s) = Inr tracks)
   \<and> ((\<exists>e. answer s (user_ident user, LIKE) = Inl e)
        \<or> (\<exists>e. answer s (user_ident user, DISLIKE) = Inl e)
        \<longrightarrow> fst (personalize_tracks tracks user m s) = Inr tracks)
   \<and> (\<exists>ts. fst (personalize_tracks_with analyze score tracks user m s) = Inr ts
          \<and> mset ts = mset tracks)
   \<and> (tracks = [] \<longrightarrow> personalize_tracks_with analyze score tracks user m s = (Inr tracks, s))
   \<and> (fst (analyze (user_ident user) m s) = Inr None
        \<longrightarrow> fst (personalize_tracks_with analyze score tracks user m s) = Inr tracks)
   \<and> ((\<exists>e. fst (analyze (user_ident user) m s) = Inl e)
        \<or> (\<exists>p t e. fst (analyze (user_ident user) m s) = Inr (Some p)
              \<and> t \<in> set tracks \<and> score t p = Inl e)
        \<longrightarrow> fst (personalize_tracks_with analyze score tracks user m s) = Inr tracks)"
proof -
  have absent_if_raises: "fst (analyze_preferences (user_ident user) m s) = Inr None"
    if "(\<exists>e. answer s (user_ident user, LIKE) = Inl e)
        \<or> (\<exists>e. answer s (user_ident user, DISLIKE) = Inl e)"
  proof (cases "answer s (user_ident user, LIKE)")
    case (Inl e)
    then show ?thesis by (simp add: analyze_preferences_like_raises)
  next
    case (Inr liked)
    with that obtain e where "answer s (user_ident user, DISLIKE) = Inl e" by auto
    with Inr show ?thesis by (simp add: analyze_preferences_dislike_raises)
  qed
  have general: "\<exists>ts. fst (personalize_tracks_with analyze score tracks user m s) = Inr ts
          \<and> mset ts = mset tracks" for analyze score
    by (rule personalize_with_returns)
  have empty: "tracks = [] \<longrightarrow> personalize_tracks_with analyze score tracks user m s = (Inr tracks, s)"
    for analyze score
    by (simp add: personalize_with_empty)
  have absent: "fst (analyze (user_ident user) m s) = Inr None
        \<longrightarrow> fst (personalize_tracks_with analyze score tracks user m s) = Inr tracks"
    for analyze score
    by (simp add: personalize_with_absent)
  have raised: "(\<exists>e. fst (analyze (user_ident user) m s) = Inl e)
        \<or> (\<exists>p t e. fst (analyze (user_ident user) m s) = Inr (Some p)
              \<and> t \<in> set tracks \<and> score t p = Inl e)
        \<longrightarrow> fst (personalize_tracks_with analyze score tracks user m s) = Inr tracks"
    using personalize_with_analysis_raises personalize_with_score_raises by blast
  show ?thesis
    unfolding personalize_tracks_def
    using general empty absent raised absent_if_raises
    by (simp only: HOL.simp_thms) blast
qed


theorem personalize_tracks_permutation_witness:
  "(\<exists>ts. fst (personalize_tracks [new_jazz_song, new_rock_song, new_pop_song]
              test_user 3 test_session) = Inr ts
         \<and> mset ts = mset [new_jazz_song, new_rock_song, new_pop_song])
   \<and> personalize_tracks [] test_user 3 test_session = (Inr [], test_session)
   \<and> fst (personalize_tracks [new_jazz_song, new_rock_song, new_pop_song]
            test_user 10 test_session)
       = Inr [new_jazz_song, new_rock_song, new_pop_song]
   \<and> fst (personalize_tracks [new_jazz_song, new_rock_song, new_pop_song]
            test_user 3 broken_session)
       = Inr [new_jazz_song, new_rock_song, new_pop_song]
   \<and> fst (personalize_tracks_with raising_analyze raising_score
            [new_jazz_song, new_rock_song, new_pop_song] test_user 3 test_session)
       = Inr [new_jazz_song, new_rock_song, new_pop_song]
   \<and> fst (personalize_tracks_with analyze_preferences raising_score
            [new_jazz_song, new_rock_song, new_pop_song] test_user 3 test_session)
       = Inr [new_jazz_song, new_rock_song, new_pop_song]"
proof -
  let ?ts = "[new_jazz_song, new_rock_song, new_pop_song]"
  have few: "fst (analyze_preferences (user_ident test_user) 10 test_session) = Inr None"
    by (simp add: analyze_preferences_def io_defs execute_def test_session_def
        test_answer_def test_user_def)
  have broken: "\<exists>e. answer broken_session (user_ident test_user, LIKE) = Inl e"
    by (simp add: broken_session_def)
  have raising: "\<exists>e. fst (raising_analyze (user_ident test_user) 3 test_session) = Inl e"
    by (simp add: raising_analyze_def io_defs)
  have present: "fst (analyze_preferences (user_ident test_user) 3 test_session)
      = Inr (Some test_preferences)"
    by (simp add: analyze_preferences_def io_defs execute_def test_session_def test_answer_def
        count_genres_def count_artists_def most_common_def Counter_def sort_reverse_def
        rock_song_1_def pop_song_1_def rock_song_2_def jazz_song_def test_preferences_def
        test_user_def)
  have jazz: "new_jazz_song \<in> set ?ts
      \<and> raising_score new_jazz_song test_preferences = Inl (Exn TypeError ''unhashable type'' None)"
    by (simp add: raising_score_def new_jazz_song_def)
  have scoring: "\<exists>p t e. fst (analyze_preferences (user_ident test_user) 3 test_session)
        = Inr (Some p) \<and> t \<in> set ?ts \<and> raising_score t p = Inl e"
    using present jazz by blast
  have c1: "\<exists>ts. fst (personalize_tracks ?ts test_user 3 test_session) = Inr ts
      \<and> mset ts = mset ?ts"
    using personalize_tracks_permutation
        [where tracks = ?ts and user = test_user and m = 3 and s = test_session
           and analyze = raising_analyze and score = raising_score]
    by (rule conjunct1)
  have c2: "personalize_tracks [] test_user 3 test_session = (Inr [], test_session)"
    using personalize_tracks_permutation
        [where tracks = "[]" and user = test_user and m = 3 and s = test_session
           and analyze = raising_analyze and score = raising_score]
    by simp
  have c3: "fst (personalize_tracks ?ts test_user 10 test_session) = Inr ?ts"
    using few personalize_tracks_permutation
        [where tracks = ?ts and user = test_user and m = 10 and s = test_session
           and analyze = raising_analyze and score = raising_score]
    by simp
  have c4: "fst (personalize_tracks ?ts test_user 3 broken_session) = Inr ?ts"
    using broken personalize_tracks_permutation
        [where tracks = ?ts and user = test_user and m = 3 and s = broken_session
           and analyze = raising_analyze and score = raising_score]
    by simp
  have c5: "fst (personalize_tracks_with raising_analyze raising_score ?ts test_user 3
      test_session) = Inr ?ts"
    using raising personalize_tracks_permutation
        [where tracks = ?ts and user = test_user and m = 3 and s = test_session
           and analyze = raising_analyze and score = raising_score]
    by simp
  have c6: "fst (personalize_tracks_with analyze_preferences raising_score ?ts test_user 3
      test_session) = Inr ?ts"
    using scoring personalize_tracks_permutation
        [where tracks = ?ts and user = test_user and m = 3 and s = test_session
           and analyze = analyze_preferences and score = raising_score]
    by simp
  from c1 c2 c3 c4 c5 c6 show ?thesis by simp
qed

text \<open>
  Claim C3. When the analyzer yields a profile, \<open>personalize_tracks\<close> returns the tracks
  in descending order of their scores, and for every score the tracks with that score
  stand in the output in the order they have in the input. The same holds for the
  service with any analyzer, hence for every profile an analyzer may yield.
\<close>

theorem personalize_tracks_stable_descending:
  "(fst (analyze_preferences (user_ident user) min_likes s) = Inr (Some p) \<longrightarrow>
      (\<exists>ts. fst (personalize_tracks tracks user min_likes s) = Inr ts
         \<and> sorted_wrt (\<lambda>a b. score_track b p \<le> score_track a p) ts
         \<and> (\<forall>v. filter (\<lambda>t. score_track t p = v) ts
               = filter (\<lambda>t. score_track t p = v) tracks)))
   \<and> (fst (analyze (user_ident user) min_likes s) = Inr (Some q) \<longrightarrow>
      (\<exists>ts. fst (personalize_tracks_with analyze (\<lambda>t p. Inr (score_track t p))
                 tracks user min_likes s) = Inr ts
         \<and> sorted_wrt (\<lambda>a b. score_track b q \<le> score_track a q) ts
         \<and> (\<forall>v. filter (\<lambda>t. score_track t q = v) ts
               = filter (\<lambda>t. score_track t q = v) tracks)))"
  by (simp add: personalize_tracks_present personalize_with_scored sorted_sort_reverse
      sort_reverse_stable)

theorem personalize_tracks_stable_descending_witness:
  "(\<exists>ts. fst (personalize_tracks
               [new_jazz_song, new_pop_song, new_rock_song, new_pop_song\<lparr>track_id := ''2004''\<rparr>]
               test_user 3 test_session) = Inr ts
         \<and> sorted_wrt (\<lambda>a b. score_track b test_preferences \<le> score_track a test_preferences) ts
         \<and> filter (\<lambda>t. score_track t test_preferences = 28) ts
             = [new_pop_song, new_pop_song\<lparr>track_id := ''2004''\<rparr>])
   \<and> (\<exists>ts. fst (personalize_tracks_with (constant_analyze example_preferences)
               (\<lambda>t p. Inr (score_track t p))
               [new_jazz_song, new_pop_song, new_rock_song, new_pop_song\<lparr>track_id := ''2004''\<rparr>]
               test_user 3 empty_session) = Inr ts
         \<and> sorted_wrt (\<lambda>a b. score_track b example_preferences
               \<le> score_track a example_preferences) ts
         \<and> filter (\<lambda>t. score_track t example_preferences = 11) ts
             = [new_pop_song, new_pop_song\<lparr>track_id := ''2004''\<rparr>])"
proof -
  let ?ts = "[new_jazz_song, new_pop_song, new_rock_song, new_pop_song\<lparr>track_id := ''2004''\<rparr>]"
  have present: "fst (analyze_preferences (user_ident test_user) 3 test_session)
      = Inr (Some test_preferences)"
    by (simp add: analyze_preferences_def io_defs execute_def test_session_def test_answer_def
        count_genres_def count_artists_def most_common_def Counter_def sort_reverse_def
        rock_song_1_def pop_song_1_def rock_song_2_def jazz_song_def test_preferences_def
        test_user_def)
  have given: "fst (constant_analyze example_preferences (user_ident test_user) 3 empty_session)
      = Inr (Some example_preferences)"
    by (simp add: constant_analyze_def io_defs)
  have scores: "filter (\<lambda>t. score_track t test_preferences = 28) ?ts
      = [new_pop_song, new_pop_song\<lparr>track_id := ''2004''\<rparr>]"
    by (simp add: score_track_def dict_of_def test_preferences_def new_jazz_song_def
        new_pop_song_def new_rock_song_def)
  have scores': "filter (\<lambda>t. score_track t example_preferences = 11) ?ts
      = [new_pop_song, new_pop_song\<lparr>track_id := ''2004''\<rparr>]"
    by (simp add: score_track_def dict_of_def example_preferences_def new_jazz_song_def
        new_pop_song_def new_rock_song_def)
  from mp [OF personalize_tracks_stable_descending
      [where tracks = ?ts and analyze = "constant_analyze example_preferences"
         and q = example_preferences, THEN conjunct1] present]
  obtain ts where ts: "fst (personalize_tracks ?ts test_user 3 test_session) = Inr ts"
      "sorted_wrt (\<lambda>a b. score_track b test_preferences \<le> score_track a test_preferences) ts"
      "\<forall>v. filter (\<lambda>t. score_track t test_preferences = v) ts
          = filter (\<lambda>t. score_track t test_preferences = v) ?ts"
    by blast
  from ts(3) scores have "filter (\<lambda>t. score_track t test_preferences = 28) ts
      = [new_pop_song, new_pop_song\<lparr>track_id := ''2004''\<rparr>]"
    by simp
  with ts(1,2) have c1: "\<exists>ts. fst (personalize_tracks ?ts test_user 3 test_session) = Inr ts
         \<and> sorted_wrt (\<lambda>a b. score_track b test_preferences \<le> score_track a test_preferences) ts
         \<and> filter (\<lambda>t. score_track t test_preferences = 28) ts
             = [new_pop_song, new_pop_song\<lparr>track_id := ''2004''\<rparr>]"
    by blast
  from mp [OF personalize_tracks_stable_descending
      [where tracks = ?ts and analyze = "constant_analyze example_preferences"
         and p = test_preferences, THEN conjunct2] given]
  obtain us where us: "fst (personalize_tracks_with (constant_analyze example_preferences)
               (\<lambda>t p. Inr (score_track t p)) ?ts test_user 3 empty_session) = Inr us"
      "sorted_wrt (\<lambda>a b. score_track b example_preferences
          \<le> score_track a example_preferences) us"
      "\<forall>v. filter (\<lambda>t. score_track t example_preferences = v) us
          = filter (\<lambda>t. score_track t example_preferences = v) ?ts"
    by blast
  from us(3) scores' have "filter (\<lambda>t. score_track t example_preferences = 11) us
      = [new_pop_song, new_pop_song\<lparr>track_id := ''2004''\<rparr>]"
    by simp
  with us(1,2) have c2: "\<exists>ts. fst (personalize_tracks_with (constant_analyze example_preferences)
               (\<lambda>t p. Inr (score_track t p)) ?ts test_user 3 empty_session) = Inr ts
         \<and> sorted_wrt (\<lambda>a b. score_track b example_preferences
               \<le> score_track a example_preferences) ts
         \<and> filter (\<lambda>t. score_track t example_preferences = 11) ts
             = [new_pop_song, new_pop_song\<lparr>track_id := ''2004''\<rparr>]"
    by blast
  from c1 c2 show ?thesis by (intro conjI)
qed

text \<open>
  Claim C6. The analyzer never raises, and returns absent when one of its read queries
  raises. The personalization service never raises, whatever analyzer and scoring
  method it is given: when the analyzer raises, and when scoring a track raises, it
  returns the input list.
\<close>

theorem pipeline_degrades:
  "(\<exists>r. fst (analyze_preferences uid m s) = Inr r)
   \<and> ((\<exists>e. answer s (uid, LIKE) = Inl e) \<or> (\<exists>e. answer s (uid, DISLIKE) = Inl e)
        \<longrightarrow> fst (analyze_preferences uid m s) = Inr None)
   \<and> (\<exists>ts. fst (personalize_tracks_with analyze score tracks user m s) = Inr ts)
   \<and> ((\<exists>e. fst (analyze (user_ident user) m s) = Inl e)
        \<longrightarrow> fst (personalize_tracks_with analyze score tracks user m s) = Inr tracks)
   \<and> ((\<exists>p t e. fst (analyze (user_ident user) m s) = Inr (Some p)
              \<and> t \<in> set tracks \<and> score t p = Inl e)
        \<longrightarrow> fst (personalize_tracks_with analyze score tracks user m s) = Inr tracks)
   \<and> (\<exists>ts. fst (personalize_tracks tracks user m s) = Inr ts)"
proof -
  have a: "\<exists>r. fst (analyze_preferences uid m s) = Inr r"
    by (rule analyze_preferences_returns)
  have b: "fst (analyze_preferences uid m s) = Inr None"
    if "(\<exists>e. answer s (uid, LIKE) = Inl e) \<or> (\<exists>e. answer s (uid, DISLIKE) = Inl e)"
  proof (cases "answer s (uid, LIKE)")
    case (Inl e)
    then show ?thesis by (simp add: analyze_preferences_like_raises)
  next
    case (Inr liked)
    with that obtain e where "answer s (uid, DISLIKE) = Inl e" by auto
    with Inr show ?thesis by (simp add: analyze_preferences_dislike_raises)
  qed
  have c: "\<exists>ts. fst (personalize_tracks_with analyze score tracks user m s) = Inr ts"
    for analyze score
    using personalize_with_returns [of analyze score tracks user m s] by blast
  have d: "(\<exists>e. fst (analyze (user_ident user) m s) = Inl e)
        \<longrightarrow> fst (personalize_tracks_with analyze score tracks user m s) = Inr tracks"
    using personalize_with_analysis_raises by blast
  have e: "(\<exists>p t e. fst (analyze (user_ident user) m s) = Inr (Some p)
              \<and> t \<in> set tracks \<and> score t p = Inl e)
        \<longrightarrow> fst (personalize_tracks_with analyze score tracks user m s) = Inr tracks"
    using personalize_with_score_raises by blast
  from a b c d e show ?thesis
    unfolding personalize_tracks_def by blast
qed


theorem pipeline_degrades_witness:
  "fst (analyze_preferences ''test-user'' 3 broken_session) = Inr None
   \<and> fst (personalize_tracks_with raising_analyze raising_score
            [new_jazz_song, new_rock_song] test_user 3 test_session)
       = Inr [new_jazz_song, new_rock_song]
   \<and> fst (personalize_tracks_with analyze_preferences raising_score
            [new_rock_song, new_jazz_song] test_user 3 test_session)
       = Inr [new_rock_song, new_jazz_song]"
proof -
  let ?ts = "[new_jazz_song, new_rock_song]"
  let ?ts' = "[new_rock_song, new_jazz_song]"
  have broken: "\<exists>e. answer broken_session (''test-user'', LIKE) = Inl e"
    by (simp add: broken_session_def)
  have raising: "\<exists>e. fst (raising_analyze (user_ident test_user) 3 test_session) = Inl e"
    by (simp add: raising_analyze_def io_defs)
  have present: "fst (analyze_preferences (user_ident test_user) 3 test_session)
      = Inr (Some test_preferences)"
    by (simp add: analyze_preferences_def io_defs execute_def test_session_def test_answer_def
        count_genres_def count_artists_def most_common_def Counter_def sort_reverse_def
        rock_song_1_def pop_song_1_def rock_song_2_def jazz_song_def test_preferences_def
        test_user_def)
  have jazz: "new_jazz_song \<in> set ?ts'
      \<and> raising_score new_jazz_song test_preferences = Inl (Exn TypeError ''unhashable type'' None)"
    by (simp add: raising_score_def new_jazz_song_def)
  have scoring: "\<exists>p t e. fst (analyze_preferences (user_ident test_user) 3 test_session)
        = Inr (Some p) \<and> t \<in> set ?ts' \<and> raising_score t p = Inl e"
    using present jazz by blast
  have c1: "fst (analyze_preferences ''test-user'' 3 broken_session) = Inr None"
    using broken pipeline_degrades
        [where uid = "''test-user''" and m = 3 and s = broken_session and tracks = ?ts
           and user = test_user and analyze = raising_analyze and score = raising_score]
    by simp
  have c2: "fst (personalize_tracks_with raising_analyze raising_score ?ts test_user 3
      test_session) = Inr ?ts"
    using raising pipeline_degrades
        [where uid = "''test-user''" and m = 3 and s = test_session and tracks = ?ts
           and user = test_user and analyze = raising_analyze and score = raising_score]
    by simp
  have c3: "fst (personalize_tracks_with analyze_preferences raising_score ?ts' test_user 3
      test_session) = Inr ?ts'"
    using scoring pipeline_degrades
        [where uid = "''test-user''" and m = 3 and s = test_session and tracks = ?ts'
           and user = test_user and analyze = analyze_preferences and score = raising_score]
    by simp
  from c1 c2 c3 show ?thesis by simp
qed

lemma dict_of_None: "dict_of pairs k = None \<longleftrightarrow> k \<notin> fst ` set pairs"
  by (simp add: dict_of_def map_of_eq_None_iff)

lemma example_analysis:
  "fst (analyze_preferences (user_ident test_user) 3 example_session)
     = Inr (Some example_preferences)"
  by (simp add: analyze_preferences_def io_defs execute_def example_session_def
      count_genres_def count_artists_def most_common_def Counter_def sort_reverse_def
      rock_song_1_def pop_song_1_def rock_song_2_def jazz_song_def example_preferences_def
      test_user_def)

lemma example_scores:
  "score_track new_rock_song example_preferences = 31"
  "score_track new_jazz_song example_preferences = - 5"
  by (simp_all add: score_track_def dict_of_def example_preferences_def new_rock_song_def
      new_jazz_song_def)

lemma score_track_sum:
  "score_track t p =
     (case genre t of
        None \<Rightarrow> 0
      | Some g \<Rightarrow> if g = [] then 0
          else (case dict_of (liked_genres p) g of None \<Rightarrow> 0 | Some c \<Rightarrow> 10 + real_of_int c))
   + (case genre t of
        None \<Rightarrow> 0
      | Some g \<Rightarrow> if g \<noteq> [] \<and> g \<in> fst ` set (disliked_genres p) then - 5 else 0)
   + (case artist t of
        None \<Rightarrow> 0
      | Some a \<Rightarrow> if a = [] then 0
          else (case dict_of (liked_artists p) a of None \<Rightarrow> 0 | Some c \<Rightarrow> 15 + 2 * real_of_int c))
   + (case artist t of
        None \<Rightarrow> 0
      | Some a \<Rightarrow> if a \<noteq> [] \<and> a \<in> fst ` set (disliked_artists p) then - 10 else 0)"
proof -
  have dg: "(case dict_of (disliked_genres p) g of Some c \<Rightarrow> x - 5 | None \<Rightarrow> x)
      = x + (if g \<in> fst ` set (disliked_genres p) then - 5 else 0)" for g and x :: real
    using dict_of_None [of "disliked_genres p" g] by (auto split: option.splits)
  have da: "(case dict_of (disliked_artists p) a of Some c \<Rightarrow> x - 10 | None \<Rightarrow> x)
      = x + (if a \<in> fst ` set (disliked_artists p) then - 10 else 0)" for a and x :: real
    using dict_of_None [of "disliked_artists p" a] by (auto split: option.splits)
  show ?thesis
    unfolding score_track_def Let_def dg da
    by (cases "genre t"; cases "artist t") (simp_all split: option.splits)
qed

text \<open>
  Claim C2. The score of a track is the sum of four clauses that do not depend on each
  other: 10 plus the count for a non-empty genre among the liked genres, -5 for a
  non-empty genre among the disliked genres, 15 plus twice the count for a non-empty
  artist among the liked artists, -10 for a non-empty artist among the disliked
  artists; a lookup misses exactly the keys that are not in the table. With the
  preferences of the example the rock track scores 31 and the jazz track -5, and the
  service puts the rock track first in whichever order the two arrive.
\<close>

theorem score_track_clauses:
  "score_track t p =
     (case genre t of
        None \<Rightarrow> 0
      | Some g \<Rightarrow> if g = [] then 0
          else (case dict_of (liked_genres p) g of None \<Rightarrow> 0 | Some c \<Rightarrow> 10 + real_of_int c))
   + (case genre t of
        None \<Rightarrow> 0
      | Some g \<Rightarrow> if g \<noteq> [] \<and> g \<in> fst ` set (disliked_genres p) then - 5 else 0)
   + (case artist t of
        None \<Rightarrow> 0
      | Some a \<Rightarrow> if a = [] then 0
          else (case dict_of (liked_artists p) a of None \<Rightarrow> 0 | Some c \<Rightarrow> 15 + 2 * real_of_int c))
   + (case artist t of
        None \<Rightarrow> 0
      | Some a \<Rightarrow> if a \<noteq> [] \<and> a \<in> fst ` set (disliked_artists p) then - 10 else 0)
   \<and> (dict_of (liked_genres p) g = None \<longleftrightarrow> g \<notin> fst ` set (liked_genres p))
   \<and> (dict_of (liked_artists p) a = None \<longleftrightarrow> a \<notin> fst ` set (liked_artists p))
   \<and> score_track new_rock_song example_preferences = 31
   \<and> score_track new_jazz_song example_preferences = - 5
   \<and> fst (analyze_preferences (user_ident test_user) 3 example_session)
       = Inr (Some example_preferences)
   \<and> fst (personalize_tracks [new_jazz_song, new_rock_song] test_user 3 example_session)
       = Inr [new_rock_song, new_jazz_song]
   \<and> fst (personalize_tracks [new_rock_song, new_jazz_song] test_user 3 example_session)
       = Inr [new_rock_song, new_jazz_song]"
proof -
  have order1: "sort_reverse (\<lambda>t. score_track t example_preferences)
      [new_jazz_song, new_rock_song] = [new_rock_song, new_jazz_song]"
    by (simp add: sort_reverse_def example_scores)
  have order2: "sort_reverse (\<lambda>t. score_track t example_preferences)
      [new_rock_song, new_jazz_song] = [new_rock_song, new_jazz_song]"
    by (simp add: sort_reverse_def example_scores)
  show ?thesis
    using score_track_sum [of t p] dict_of_None [of "liked_genres p" g]
      dict_of_None [of "liked_artists p" a] example_scores example_analysis
      personalize_tracks_present [OF example_analysis] order1 order2
    by simp
qed

subsection \<open>Frequency tables\<close>

lemma remdups_snoc: "remdups (ys @ [x]) = filter (\<lambda>y. y \<noteq> x) (remdups ys) @ [x]"
  by (induction ys) auto

lemma first_seen_rev_remdups: "first_seen xs = rev (remdups (rev xs))"
  by (induction xs) (simp_all add: remdups_snoc rev_filter)

lemma set_first_seen: "set (first_seen xs) = set xs"
  by (simp add: first_seen_rev_remdups)

lemma distinct_first_seen: "distinct (first_seen xs)"
  by (simp add: first_seen_rev_remdups)

lemma first_seen_snoc:
  "first_seen (ys @ [x]) = (if x \<in> set ys then first_seen ys else first_seen ys @ [x])"
  by (simp add: first_seen_rev_remdups)

lemma counter_incr_new:
  "x \<notin> set ks \<Longrightarrow> counter_incr x (map (\<lambda>k. (k, c k)) ks) = map (\<lambda>k. (k, c k)) ks @ [(x, 1)]"
  by (induction ks) auto

lemma counter_incr_old:
  "distinct ks \<Longrightarrow> x \<in> set ks \<Longrightarrow>
   counter_incr x (map (\<lambda>k. (k, c k)) ks) = map (\<lambda>k. (k, if k = x then c k + 1 else c k)) ks"
  by (induction ks) auto

lemma counter_incr_counts:
  "counter_incr x (map (\<lambda>k. (k, int (count_list ys k))) (first_seen ys))
   = map (\<lambda>k. (k, int (count_list (ys @ [x]) k))) (first_seen (ys @ [x]))"
proof (cases "x \<in> set ys")
  case True
  then show ?thesis
    by (simp add: first_seen_snoc counter_incr_old distinct_first_seen set_first_seen)
next
  case False
  then have "map (\<lambda>k. (k, int (count_list ys k))) (first_seen ys)
      = map (\<lambda>k. (k, int (count_list (ys @ [x]) k))) (first_seen ys)"
    by (auto simp add: set_first_seen)
  with False show ?thesis
    by (simp add: first_seen_snoc counter_incr_new set_first_seen count_list_0_iff)
qed

lemma foldl_counter_incr:
  "foldl (\<lambda>acc x. counter_incr x acc)
     (map (\<lambda>k. (k, int (count_list ys k))) (first_seen ys)) xs
   = map (\<lambda>k. (k, int (count_list (ys @ xs) k))) (first_seen (ys @ xs))"
proof (induction xs arbitrary: ys)
  case Nil
  then show ?case by simp
next
  case (Cons x xs)
  show ?case
    using Cons.IH [of "ys @ [x]"] by (simp add: counter_incr_counts)
qed

lemma Counter_counts: "Counter xs = map (\<lambda>k. (k, int (count_list xs k))) (first_seen xs)"
  using foldl_counter_incr [of "[]" xs] by (simp add: Counter_def)

lemma field_values_comprehension:
  "map (\<lambda>t. the (f t)) (filter (\<lambda>t. truthy (f t)) ts) = field_values f ts"
  by (induction ts) (auto split: option.splits)

lemma count_list_field_values:
  "int (count_list (field_values f ts) v) = (if v = [] then 0 else occurrences f ts v)"
  by (induction ts) (auto simp add: occurrences_def split: option.splits)

lemma set_field_values: "set (field_values f ts) = {v. v \<noteq> [] \<and> Some v \<in> f ` set ts}"
  by (induction ts) (auto split: option.splits)

lemma length_field_values: "length (field_values f ts) = length (filter (\<lambda>t. truthy (f t)) ts)"
  by (induction ts) (auto split: option.splits)


lemma sum_counter_incr: "sum_list (map snd (counter_incr x acc)) = sum_list (map snd acc) + 1"
  by (induction acc) auto

lemma sum_foldl_counter_incr:
  "sum_list (map snd (foldl (\<lambda>acc x. counter_incr x acc) acc xs))
   = sum_list (map snd acc) + int (length xs)"
  by (induction xs arbitrary: acc) (simp_all add: sum_counter_incr)

lemma sum_Counter: "sum_list (map snd (Counter xs)) = int (length xs)"
  by (simp add: Counter_def sum_foldl_counter_incr)

lemma sum_most_common: "sum_list (map snd (most_common c)) = sum_list (map snd c)"
proof -
  have "mset (map snd (most_common c)) = mset (map snd c)"
    by (simp add: most_common_def mset_sort_reverse)
  then have "sum_mset (mset (map snd (most_common c))) = sum_mset (mset (map snd c))"
    by simp
  then show ?thesis by (simp only: sum_mset_sum_list)
qed

lemma distinct_most_common: "distinct (map fst (most_common c)) = distinct (map fst c)"
proof -
  have "mset (map fst (most_common c)) = mset (map fst c)"
    by (simp add: most_common_def mset_sort_reverse)
  then show ?thesis by (rule mset_eq_imp_distinct_iff)
qed

lemma frequency_table:
  fixes f :: "'t \<Rightarrow> string option"
  defines "table \<equiv> \<lambda>ts. most_common (Counter (field_values f ts))"
  shows "distinct (map fst (table ts))"
    and "map_of (table ts) v =
      (if v \<noteq> [] \<and> Some v \<in> f ` set ts then Some (occurrences f ts v) else None)"
    and "sorted_wrt (\<lambda>a b. snd b \<le> snd a) (table ts)"
    and "map fst (filter (\<lambda>kv. snd kv = n) (table ts))
      = filter (\<lambda>v. occurrences f ts v = n) (first_seen (field_values f ts))"
    and "sum_list (map snd (table ts)) = int (length (filter (\<lambda>t. truthy (f t)) ts))"
proof -
  let ?vals = "field_values f ts"
  let ?c = "Counter ?vals"
  have keys: "map fst ?c = first_seen ?vals"
    by (simp add: Counter_counts o_def)
  show d: "distinct (map fst (table ts))"
    by (simp add: table_def distinct_most_common keys distinct_first_seen)
  have set_eq: "set (table ts) = set ?c"
    using mset_sort_reverse [of snd ?c] unfolding table_def most_common_def
    by (rule mset_eq_setD)
  show "map_of (table ts) v =
      (if v \<noteq> [] \<and> Some v \<in> f ` set ts then Some (occurrences f ts v) else None)"
  proof (cases "v \<noteq> [] \<and> Some v \<in> f ` set ts")
    case True
    then have "v \<in> set ?vals" by (simp add: set_field_values)
    then have "(v, int (count_list ?vals v)) \<in> set ?c"
      by (simp add: Counter_counts set_first_seen)
    with True have "(v, occurrences f ts v) \<in> set (table ts)"
      by (simp add: set_eq count_list_field_values)
    with d True show ?thesis by simp
  next
    case False
    then have "v \<notin> set ?vals" by (simp add: set_field_values)
    then have "v \<notin> fst ` set (table ts)"
      using keys set_first_seen [of ?vals] by (metis set_eq set_map)
    then have "map_of (table ts) v = None" by (simp add: map_of_eq_None_iff)
    with False show ?thesis by auto
  qed
  show "sorted_wrt (\<lambda>a b. snd b \<le> snd a) (table ts)"
    by (simp add: table_def most_common_def sorted_sort_reverse)
  have "map fst (filter (\<lambda>kv. snd kv = n) (table ts)) = map fst (filter (\<lambda>kv. snd kv = n) ?c)"
    by (simp add: table_def most_common_def sort_reverse_stable)
  also have "\<dots> = filter (\<lambda>v. int (count_list ?vals v) = n) (first_seen ?vals)"
    by (simp add: Counter_counts filter_map o_def)
  also have "\<dots> = filter (\<lambda>v. occurrences f ts v = n) (first_seen ?vals)"
    by (rule filter_cong) (auto simp add: set_first_seen set_field_values count_list_field_values)
  finally show "map fst (filter (\<lambda>kv. snd kv = n) (table ts))
      = filter (\<lambda>v. occurrences f ts v = n) (first_seen (field_values f ts))" .
  show "sum_list (map snd (table ts)) = int (length (filter (\<lambda>t. truthy (f t)) ts))"
    by (simp add: table_def sum_most_common sum_Counter length_field_values)
qed


lemma count_genres_table:
  "count_genres ts = most_common (Counter (field_values primary_genre ts))"
  by (simp add: count_genres_def field_values_comprehension)

lemma count_artists_table:
  "count_artists ts = most_common (Counter (field_values cache_artist ts))"
  by (simp add: count_artists_def field_values_comprehension)

text \<open>
  Claim C5. For every list of tracks, the table of genres and the table of artists have
  one entry per non-empty value of the field, with the exact number of tracks carrying
  that value; the empty string is no key, and the counts add up to the number of tracks
  whose field is non-empty, so a track with an empty or absent field contributes to no
  table. Each table is in descending order of count, and the entries of one count stand
  in the order in which a scan of the tracks first meets their values. The four tables of
  a profile are these tables of the liked and of the disliked tracks.
\<close>

theorem frequency_tables_exact:
  "distinct (map fst (count_genres ts))
   \<and> (\<forall>v. map_of (count_genres ts) v =
         (if v \<noteq> [] \<and> Some v \<in> primary_genre ` set ts
          then Some (occurrences primary_genre ts v) else None))
   \<and> sum_list (map snd (count_genres ts))
       = int (length (filter (\<lambda>t. truthy (primary_genre t)) ts))
   \<and> sorted_wrt (\<lambda>a b. snd b \<le> snd a) (count_genres ts)
   \<and> (\<forall>n. map fst (filter (\<lambda>kv. snd kv = n) (count_genres ts))
         = filter (\<lambda>v. occurrences primary_genre ts v = n)
             (first_seen (field_values primary_genre ts)))
   \<and> distinct (map fst (count_artists ts))
   \<and> (\<forall>v. map_of (count_artists ts) v =
         (if v \<noteq> [] \<and> Some v \<in> cache_artist ` set ts
          then Some (occurrences cache_artist ts v) else None))
   \<and> sum_list (map snd (count_artists ts))
       = int (length (filter (\<lambda>t. truthy (cache_artist t)) ts))
   \<and> sorted_wrt (\<lambda>a b. snd b \<le> snd a) (count_artists ts)
   \<and> (\<forall>n. map fst (filter (\<lambda>kv. snd kv = n) (count_artists ts))
         = filter (\<lambda>v. occurrences cache_artist ts v = n)
             (first_seen (field_values cache_artist ts)))
   \<and> (answer s (uid, LIKE) = Inr liked \<and> answer s (uid, DISLIKE) = Inr disliked
        \<and> fst (analyze_preferences uid min_likes s) = Inr (Some p)
        \<longrightarrow> liked_genres p = count_genres liked \<and> liked_artists p = count_artists liked
          \<and> disliked_genres p = count_genres disliked
          \<and> disliked_artists p = count_artists disliked)"
proof -
  have profile: "liked_genres p = count_genres liked \<and> liked_artists p = count_artists liked
      \<and> disliked_genres p = count_genres disliked \<and> disliked_artists p = count_artists disliked"
    if "answer s (uid, LIKE) = Inr liked" and "answer s (uid, DISLIKE) = Inr disliked"
      and "fst (analyze_preferences uid min_likes s) = Inr (Some p)"
    using that(3) unfolding analyze_preferences_rows [OF that(1,2)]
    by (auto split: if_splits)
  show ?thesis
    unfolding count_genres_table count_artists_table
    using frequency_table [where f = primary_genre and ts = ts]
      frequency_table [where f = cache_artist and ts = ts] profile
    unfolding count_genres_table count_artists_table
    by (intro conjI allI impI) blast+
qed


theorem frequency_tables_exact_witness:
  "map_of (count_genres [jazz_song, rock_song_1, pop_song_1,
       jazz_song\<lparr>primary_genre := Some []\<rparr>, rock_song_2\<lparr>cache_artist := None\<rparr>]) ''Rock''
     = Some 2
   \<and> map_of (count_genres [jazz_song, rock_song_1, pop_song_1,
       jazz_song\<lparr>primary_genre := Some []\<rparr>, rock_song_2\<lparr>cache_artist := None\<rparr>]) [] = None
   \<and> sum_list (map snd (count_genres [jazz_song, rock_song_1, pop_song_1,
       jazz_song\<lparr>primary_genre := Some []\<rparr>, rock_song_2\<lparr>cache_artist := None\<rparr>])) = 4
   \<and> map fst (filter (\<lambda>kv. snd kv = 1) (count_genres [jazz_song, rock_song_1, pop_song_1,
       jazz_song\<lparr>primary_genre := Some []\<rparr>, rock_song_2\<lparr>cache_artist := None\<rparr>]))
     = [''Jazz'', ''Pop'']
   \<and> map_of (count_artists [jazz_song, rock_song_1, pop_song_1,
       jazz_song\<lparr>primary_genre := Some []\<rparr>, rock_song_2\<lparr>cache_artist := None\<rparr>]) ''Rock Band''
     = Some 1
   \<and> map fst (filter (\<lambda>kv. snd kv = 2) (count_artists [jazz_song, rock_song_1, pop_song_1,
       jazz_song\<lparr>primary_genre := Some []\<rparr>, rock_song_2\<lparr>cache_artist := None\<rparr>]))
     = [''Jazz Artist'']
   \<and> liked_genres test_preferences = count_genres [rock_song_1, pop_song_1, rock_song_2]
   \<and> disliked_artists test_preferences = count_artists [jazz_song]"
proof -
  let ?L = "[jazz_song, rock_song_1, pop_song_1,
       jazz_song\<lparr>primary_genre := Some []\<rparr>, rock_song_2\<lparr>cache_artist := None\<rparr>]"
  have l: "answer test_session (''test-user'', LIKE) = Inr [rock_song_1, pop_song_1, rock_song_2]"
    by (simp add: test_session_def test_answer_def)
  have d: "answer test_session (''test-user'', DISLIKE) = Inr [jazz_song]"
    by (simp add: test_session_def test_answer_def)
  have present: "fst (analyze_preferences ''test-user'' 3 test_session)
      = Inr (Some test_preferences)"
    by (simp add: analyze_preferences_def io_defs execute_def test_session_def test_answer_def
        count_genres_def count_artists_def most_common_def Counter_def sort_reverse_def
        rock_song_1_def pop_song_1_def rock_song_2_def jazz_song_def test_preferences_def)
  note T = frequency_tables_exact [where ts = ?L and s = test_session and uid = "''test-user''"
      and liked = "[rock_song_1, pop_song_1, rock_song_2]" and disliked = "[jazz_song]"
      and min_likes = 3 and p = test_preferences]
  have g: "field_values primary_genre ?L = [''Jazz'', ''Rock'', ''Pop'', ''Rock'']"
    by (simp add: rock_song_1_def pop_song_1_def rock_song_2_def jazz_song_def)
  have a: "field_values cache_artist ?L
      = [''Jazz Artist'', ''Rock Band'', ''Pop Artist'', ''Jazz Artist'']"
    by (simp add: rock_song_1_def pop_song_1_def rock_song_2_def jazz_song_def)
  have og: "occurrences primary_genre ?L ''Rock'' = 2" "occurrences primary_genre ?L ''Jazz'' = 1"
    "occurrences primary_genre ?L ''Pop'' = 1"
    by (simp_all add: occurrences_def rock_song_1_def pop_song_1_def rock_song_2_def
        jazz_song_def)
  have oa: "occurrences cache_artist ?L ''Rock Band'' = 1"
    "occurrences cache_artist ?L ''Jazz Artist'' = 2"
    "occurrences cache_artist ?L ''Pop Artist'' = 1"
    by (simp_all add: occurrences_def rock_song_1_def pop_song_1_def rock_song_2_def
        jazz_song_def)
  have mg: "Some ''Rock'' \<in> primary_genre ` set ?L"
    by (simp add: rock_song_1_def)
  have ma: "Some ''Rock Band'' \<in> cache_artist ` set ?L"
    by (simp add: rock_song_1_def)
  have tg: "int (length (filter (\<lambda>t. truthy (primary_genre t)) ?L)) = 4"
    by (simp add: rock_song_1_def pop_song_1_def rock_song_2_def jazz_song_def)
  have c1: "map_of (count_genres ?L) ''Rock'' = Some 2"
    using T mg og by simp
  have c2: "map_of (count_genres ?L) [] = None"
    using T by simp
  have c3: "sum_list (map snd (count_genres ?L)) = 4"
    using T tg by simp
  have c4: "map fst (filter (\<lambda>kv. snd kv = 1) (count_genres ?L)) = [''Jazz'', ''Pop'']"
    using T g og by simp
  have c5: "map_of (count_artists ?L) ''Rock Band'' = Some 1"
    using T ma oa by simp
  have c6: "map fst (filter (\<lambda>kv. snd kv = 2) (count_artists ?L)) = [''Jazz Artist'']"
    using T a oa by simp
  have c7: "liked_genres test_preferences = count_genres [rock_song_1, pop_song_1, rock_song_2]
      \<and> disliked_artists test_preferences = count_artists [jazz_song]"
    using T l d present by simp
  from c1 c2 c3 c4 c5 c6 c7 show ?thesis by simp
qed

subsection \<open>User-preference search strategy\<close>

lemma random_choice_member:
  "seq \<noteq> [] \<Longrightarrow>
   \<exists>x\<in>set seq. random_choice seq (self, rnd)
     = (Inr x, (self, rnd\<lparr>choice_calls := choice_calls rnd + 1\<rparr>))"
  by (simp add: random_choice_def)

lemma fallback_params_shape:
  "\<exists>d\<in>set default_terms. fallback_params (self, rnd)
     = (Inr [(''term'', d), (''entity'', ''song'')],
        (self, rnd\<lparr>choice_calls := choice_calls rnd + 1\<rparr>))"
proof -
  have "default_terms \<noteq> []" by (simp add: default_terms_def)
  from random_choice_member [OF this, of self rnd] show ?thesis
    by (auto simp add: fallback_params_def io_defs)
qed

lemma load_preferences_result:
  assumes "session self = Some sess" and "user_id self = Some uid"
    and "analyze_preferences uid 3 sess = (Inr p, sess')"
  shows "load_preferences (self, rnd)
    = (Inr (), (self\<lparr>session := Some sess', preferences := p\<rparr>, rnd))"
  using assms by (simp add: load_preferences_def io_defs)

lemma analyze_preferences_pair:
  "\<exists>p. analyze_preferences uid m sess = (Inr p, snd (analyze_preferences uid m sess))"
  using analyze_preferences_returns [of uid m sess]
  by (cases "analyze_preferences uid m sess") auto

lemma ensure_preferences_loaded_first:
  assumes "\<not> preferences_loaded self" and "session self = Some sess"
    and "user_id self = Some uid" and "analyze_preferences uid 3 sess = (Inr p, sess')"
  shows "ensure_preferences_loaded (self, rnd)
    = (Inr (), (self\<lparr>session := Some sess', preferences := p, preferences_loaded := True\<rparr>,
         rnd))"
  using assms
  by (simp add: ensure_preferences_loaded_def io_defs load_preferences_result
      set_preferences_loaded_def)

lemma ensure_preferences_loaded_again:
  "preferences_loaded self \<Longrightarrow> ensure_preferences_loaded (self, rnd) = (Inr (), (self, rnd))"
  by (simp add: ensure_preferences_loaded_def io_defs)


lemma genre_branch:
  assumes "preferences self = Some p" and "floats rnd (float_calls rnd) < 0.7"
    and "liked_genres p \<noteq> []"
  shows "\<exists>g\<in>set (get_top_genres p 3). \<exists>rnd'.
    generate_preference_based_params (self, rnd) = (Inr (genre_params g), (self, rnd'))"
proof -
  have ne: "get_top_genres p 3 \<noteq> []"
    using assms(3) by (simp add: get_top_genres_def)
  from random_choice_member [OF ne, of self "rnd\<lparr>float_calls := float_calls rnd + 1\<rparr>"]
  obtain g where g: "g \<in> set (get_top_genres p 3)"
    "random_choice (get_top_genres p 3) (self, rnd\<lparr>float_calls := float_calls rnd + 1\<rparr>)
      = (Inr g, (self, rnd\<lparr>float_calls := float_calls rnd + 1,
           choice_calls := choice_calls rnd + 1\<rparr>))"
    by auto
  have "generate_preference_based_params (self, rnd)
      = (Inr (genre_params g), (self, rnd\<lparr>float_calls := float_calls rnd + 1,
           choice_calls := choice_calls rnd + 1\<rparr>))"
    using assms(1,2) ne g(2)
    by (simp add: generate_preference_based_params_def io_defs random_random_def)
  with g(1) show ?thesis by blast
qed

lemma artist_branch:
  assumes "preferences self = Some p"
    and "\<not> floats rnd (float_calls rnd) < 0.7 \<or> liked_genres p = []"
    and "liked_artists p \<noteq> []"
  shows "\<exists>a\<in>set (get_top_artists p 3). \<exists>rnd'.
    generate_preference_based_params (self, rnd) = (Inr (artist_params a), (self, rnd'))"
proof -
  have ne: "get_top_artists p 3 \<noteq> []"
    using assms(3) by (simp add: get_top_artists_def)
  have no_genre: "\<not> (floats rnd (float_calls rnd) < 0.7 \<and> get_top_genres p 3 \<noteq> [])"
    using assms(2) by (auto simp add: get_top_genres_def)
  from random_choice_member [OF ne, of self "rnd\<lparr>float_calls := float_calls rnd + 1\<rparr>"]
  obtain a where a: "a \<in> set (get_top_artists p 3)"
    "random_choice (get_top_artists p 3) (self, rnd\<lparr>float_calls := float_calls rnd + 1\<rparr>)
      = (Inr a, (self, rnd\<lparr>float_calls := float_calls rnd + 1,
           choice_calls := choice_calls rnd + 1\<rparr>))"
    by auto
  have "generate_preference_based_params (self, rnd)
      = (Inr (artist_params a), (self, rnd\<lparr>float_calls := float_calls rnd + 1,
           choice_calls := choice_calls rnd + 1\<rparr>))"
    using assms(1) ne no_genre a(2)
    by (auto simp add: generate_preference_based_params_def io_defs random_random_def Let_def)
  with a(1) show ?thesis by blast
qed

lemma fallback_branch:
  assumes "preferences self = Some p"
    and "\<not> floats rnd (float_calls rnd) < 0.7 \<or> liked_genres p = []"
    and "liked_artists p = []"
  shows "\<exists>d\<in>set default_terms. \<exists>rnd'.
    generate_preference_based_params (self, rnd)
      = (Inr [(''term'', d), (''entity'', ''song'')], (self, rnd'))"
proof -
  from fallback_params_shape [of self "rnd\<lparr>float_calls := float_calls rnd + 1\<rparr>"]
  show ?thesis
    using assms
    by (auto simp add: generate_preference_based_params_def io_defs random_random_def
        get_top_artists_def get_top_genres_def)
qed

lemma generate_params_no_handle:
  assumes "session self = None \<or> \<not> truthy (user_id self)"
  shows "\<exists>d\<in>set default_terms. \<exists>rnd'.
    generate_params (self, rnd) = (Inr [(''term'', d), (''entity'', ''song'')], (self, rnd'))"
  using assms fallback_params_shape [of self rnd]
  by (auto simp add: generate_params_def)

lemma generate_params_after_load:
  assumes "session self \<noteq> None" and "truthy (user_id self)"
    and "ensure_preferences_loaded (self, rnd) = (Inr (), (self', rnd))"
  shows "generate_params (self, rnd) =
    (if preferences self' = None then fallback_params (self', rnd)
     else generate_preference_based_params (self', rnd))"
proof -
  from assms(1) obtain sess where "session self = Some sess" by auto
  with assms(2,3) show ?thesis
    by (simp add: generate_params_def io_defs)
qed


lemma preference_based_params_returns:
  "\<exists>ps rnd'. generate_preference_based_params (self, rnd) = (Inr ps, (self, rnd'))"
proof (cases "preferences self")
  case None
  with fallback_params_shape [of self rnd] show ?thesis
    by (auto simp add: generate_preference_based_params_def)
next
  case (Some p)
  show ?thesis
  proof (cases "floats rnd (float_calls rnd) < 0.7 \<and> liked_genres p \<noteq> []")
    case True
    with Some genre_branch [of self p rnd] show ?thesis by blast
  next
    case False
    then have no: "\<not> floats rnd (float_calls rnd) < 0.7 \<or> liked_genres p = []" by blast
    show ?thesis
    proof (cases "liked_artists p = []")
      case True
      with Some no fallback_branch [of self p rnd] show ?thesis by blast
    next
      case False
      with Some no artist_branch [of self p rnd] show ?thesis by blast
    qed
  qed
qed

lemma generate_params_loaded:
  assumes "preferences_loaded self"
  shows "\<exists>ps rnd'. generate_params (self, rnd) = (Inr ps, (self, rnd'))"
proof (cases "session self = None \<or> \<not> truthy (user_id self)")
  case True
  with generate_params_no_handle [of self rnd] show ?thesis by blast
next
  case False
  then have h: "session self \<noteq> None" "truthy (user_id self)" by auto
  have e: "ensure_preferences_loaded (self, rnd) = (Inr (), (self, rnd))"
    using assms by (rule ensure_preferences_loaded_again)
  show ?thesis
    unfolding generate_params_after_load [OF h e]
    using fallback_params_shape [of self rnd] preference_based_params_returns [of self rnd]
    by auto
qed

lemma generate_params_times_loaded:
  "preferences_loaded self \<Longrightarrow>
   \<exists>ps rnd'. generate_params_times n (self, rnd) = (Inr ps, (self, rnd')) \<and> length ps = n"
proof (induction n arbitrary: rnd)
  case 0
  then show ?case by (simp add: io_defs)
next
  case (Suc n)
  from generate_params_loaded [OF Suc.prems, of rnd]
  obtain p rnd1 where p: "generate_params (self, rnd) = (Inr p, (self, rnd1))" by blast
  from Suc.IH [OF Suc.prems, of rnd1]
  obtain ps rnd2 where ps: "generate_params_times n (self, rnd1) = (Inr ps, (self, rnd2))"
    "length ps = n" by blast
  from p ps show ?case by (simp add: io_defs)
qed

lemma generate_params_first:
  assumes "uid \<noteq> []" and "analyze_preferences uid 3 sess = (Inr r, sess')"
  shows "\<exists>ps rnd'. generate_params (init_strategy (Some sess) (Some uid), rnd)
    = (Inr ps, (\<lparr> session = Some sess', user_id = Some uid, preferences = r,
                  preferences_loaded = True \<rparr>, rnd'))"
proof -
  let ?self = "init_strategy (Some sess) (Some uid)"
  let ?self' = "\<lparr> session = Some sess', user_id = Some uid, preferences = r,
                  preferences_loaded = True \<rparr>"
  have h: "session ?self \<noteq> None" "truthy (user_id ?self)"
    using assms(1) by (simp_all add: init_strategy_def)
  have "ensure_preferences_loaded (?self, rnd)
      = (Inr (), (?self\<lparr>session := Some sess', preferences := r, preferences_loaded := True\<rparr>,
           rnd))"
    using assms(2) by (intro ensure_preferences_loaded_first) (simp_all add: init_strategy_def)
  then have e: "ensure_preferences_loaded (?self, rnd) = (Inr (), (?self', rnd))"
    by (simp add: init_strategy_def)
  show ?thesis
    unfolding generate_params_after_load [OF h e]
    using fallback_params_shape [of ?self' rnd] preference_based_params_returns [of ?self' rnd]
    by auto
qed

lemma analyze_preferences_executed:
  "executed (snd (analyze_preferences uid m sess)) = executed sess @
     (case answer sess (uid, LIKE) of
        Inl e \<Rightarrow> [(uid, LIKE)]
      | Inr liked \<Rightarrow> [(uid, LIKE), (uid, DISLIKE)])"
proof (cases "answer sess (uid, LIKE)")
  case (Inl e)
  then show ?thesis by (simp add: analyze_preferences_like_raises)
next
  case liked: (Inr liked)
  show ?thesis
  proof (cases "answer sess (uid, DISLIKE)")
    case (Inl e)
    with liked show ?thesis by (simp add: analyze_preferences_dislike_raises)
  next
    case (Inr disliked)
    with liked show ?thesis by (simp add: analyze_preferences_rows)
  qed
qed

lemma analyze_preferences_raises_absent:
  assumes "(\<exists>e. answer s (uid, LIKE) = Inl e) \<or> (\<exists>e. answer s (uid, DISLIKE) = Inl e)"
  shows "fst (analyze_preferences uid m s) = Inr None"
proof (cases "answer s (uid, LIKE)")
  case (Inl e)
  then show ?thesis by (simp add: analyze_preferences_like_raises)
next
  case (Inr liked)
  with assms obtain e where "answer s (uid, DISLIKE) = Inl e" by auto
  with Inr show ?thesis by (simp add: analyze_preferences_dislike_raises)
qed

text \<open>
  Claim C8. On a strategy built with a session and a non-empty user id, any number of
  invocations of \<open>generate_params\<close>, one or more, returns parameters each time and leaves
  the instance with the session as one call of the analyzer with \<open>min_likes = 3\<close> leaves
  it, with that call's result as the cached profile and with the loaded flag set. The
  analyzer's call executes the statement for the liked tracks and, when that does not
  raise, the one for the disliked tracks, and nothing else. An instance whose flag is
  set is left as it is by an invocation, so it executes no statement. When a read raises
  during the load, the cached profile is absent.
\<close>

theorem preferences_loaded_once:
  assumes "uid \<noteq> []"
  shows "(\<exists>r. fst (analyze_preferences uid 3 sess) = Inr r
          \<and> (\<exists>ps rnd'. generate_params_times (Suc n) (init_strategy (Some sess) (Some uid), rnd)
                = (Inr ps,
                   (\<lparr> session = Some (snd (analyze_preferences uid 3 sess)),
                       user_id = Some uid, preferences = r, preferences_loaded = True \<rparr>,
                    rnd'))
              \<and> length ps = Suc n))
    \<and> executed (snd (analyze_preferences uid 3 sess)) = executed sess @
         (case answer sess (uid, LIKE) of
            Inl e \<Rightarrow> [(uid, LIKE)]
          | Inr liked \<Rightarrow> [(uid, LIKE), (uid, DISLIKE)])
    \<and> (preferences_loaded self \<longrightarrow>
         (\<exists>ps rnd'. generate_params (self, rnd) = (Inr ps, (self, rnd'))))
    \<and> ((\<exists>e. answer sess (uid, LIKE) = Inl e) \<or> (\<exists>e. answer sess (uid, DISLIKE) = Inl e)
         \<longrightarrow> fst (analyze_preferences uid 3 sess) = Inr None)"
proof -
  from analyze_preferences_pair [of uid 3 sess]
  obtain r where r: "analyze_preferences uid 3 sess = (Inr r, snd (analyze_preferences uid 3 sess))"
    by blast
  let ?self' = "\<lparr> session = Some (snd (analyze_preferences uid 3 sess)),
                       user_id = Some uid, preferences = r, preferences_loaded = True \<rparr>"
  from generate_params_first [OF assms r, of rnd]
  obtain p rnd1 where p: "generate_params (init_strategy (Some sess) (Some uid), rnd)
      = (Inr p, (?self', rnd1))" by blast
  have "preferences_loaded ?self'" by simp
  from generate_params_times_loaded [OF this, of n rnd1]
  obtain ps rnd2 where ps: "generate_params_times n (?self', rnd1) = (Inr ps, (?self', rnd2))"
    "length ps = n" by blast
  have times: "generate_params_times (Suc n) (init_strategy (Some sess) (Some uid), rnd)
      = (Inr (p # ps), (?self', rnd2))"
    using p ps(1) by (simp add: io_defs)
  have first: "\<exists>r. fst (analyze_preferences uid 3 sess) = Inr r
          \<and> (\<exists>ps rnd'. generate_params_times (Suc n) (init_strategy (Some sess) (Some uid), rnd)
                = (Inr ps,
                   (\<lparr> session = Some (snd (analyze_preferences uid 3 sess)),
                       user_id = Some uid, preferences = r, preferences_loaded = True \<rparr>,
                    rnd'))
              \<and> length ps = Suc n)"
  proof (intro exI conjI)
    show "fst (analyze_preferences uid 3 sess) = Inr r" using r by (metis fst_conv)
    show "generate_params_times (Suc n) (init_strategy (Some sess) (Some uid), rnd)
      = (Inr (p # ps), (?self', rnd2))" by (rule times)
    show "length (p # ps) = Suc n" using ps(2) by simp
  qed
  show ?thesis
    using first analyze_preferences_executed [of uid 3 sess]
      generate_params_loaded [of self rnd] analyze_preferences_raises_absent [of sess uid 3]
    by (intro conjI impI) assumption+
qed


theorem preferences_loaded_once_witness:
  "''test-user'' \<noteq> []
   \<and> (\<exists>ps rnd'. generate_params_times (Suc 2)
          (init_strategy (Some test_session) (Some ''test-user''), fixed_random 0.5 4)
        = (Inr ps,
           (\<lparr> session = Some (test_session\<lparr>executed :=
                   [(''test-user'', LIKE), (''test-user'', DISLIKE)]\<rparr>),
               user_id = Some ''test-user'', preferences = Some test_preferences,
               preferences_loaded = True \<rparr>, rnd'))
      \<and> length ps = Suc 2)
   \<and> (\<exists>ps rnd'. generate_params_times (Suc 2)
          (init_strategy (Some broken_session) (Some ''test-user''), fixed_random 0.5 4)
        = (Inr ps,
           (\<lparr> session = Some (broken_session\<lparr>executed := [(''test-user'', LIKE)]\<rparr>),
               user_id = Some ''test-user'', preferences = None,
               preferences_loaded = True \<rparr>, rnd'))
      \<and> length ps = Suc 2)"
proof -
  have u: "''test-user'' \<noteq> []" by simp
  have an: "analyze_preferences ''test-user'' 3 test_session
      = (Inr (Some test_preferences),
         test_session\<lparr>executed := [(''test-user'', LIKE), (''test-user'', DISLIKE)]\<rparr>)"
    by (simp add: analyze_preferences_def io_defs execute_def test_session_def test_answer_def
        count_genres_def count_artists_def most_common_def Counter_def sort_reverse_def
        rock_song_1_def pop_song_1_def rock_song_2_def jazz_song_def test_preferences_def)
  have bn: "analyze_preferences ''test-user'' 3 broken_session
      = (Inr None, broken_session\<lparr>executed := [(''test-user'', LIKE)]\<rparr>)"
    by (simp add: analyze_preferences_def io_defs execute_def broken_session_def)
  have c1: "\<exists>ps rnd'. generate_params_times (Suc 2)
          (init_strategy (Some test_session) (Some ''test-user''), fixed_random 0.5 4)
        = (Inr ps,
           (\<lparr> session = Some (test_session\<lparr>executed :=
                   [(''test-user'', LIKE), (''test-user'', DISLIKE)]\<rparr>),
               user_id = Some ''test-user'', preferences = Some test_preferences,
               preferences_loaded = True \<rparr>, rnd'))
      \<and> length ps = Suc 2"
    using preferences_loaded_once [OF u, where sess = test_session and n = 2
        and rnd = "fixed_random 0.5 4" and self = "init_strategy None None"]
    unfolding an by simp
  have c2: "\<exists>ps rnd'. generate_params_times (Suc 2)
          (init_strategy (Some broken_session) (Some ''test-user''), fixed_random 0.5 4)
        = (Inr ps,
           (\<lparr> session = Some (broken_session\<lparr>executed := [(''test-user'', LIKE)]\<rparr>),
               user_id = Some ''test-user'', preferences = None,
               preferences_loaded = True \<rparr>, rnd'))
      \<and> length ps = Suc 2"
    using preferences_loaded_once [OF u, where sess = broken_session and n = 2
        and rnd = "fixed_random 0.5 4" and self = "init_strategy None None"]
    unfolding bn by simp
  from u c1 c2 show ?thesis by blast
qed




lemma get_strategy_body_dynamic:
  assumes "strategy_name \<noteq> ''chart_keyword''" and "strategy_name \<noteq> ''user_preference_search''"
  shows "get_strategy_body import_module strategy_name kwargs =
    (case import_module (''app.services.search_strategies.'' @ strategy_name) of
       Inl e \<Rightarrow> Inl e
     | Inr strategy_module \<Rightarrow>
         (case first_strategy_class strategy_module of
            Some made \<Rightarrow> made
          | None \<Rightarrow> Inl (Exn ImportError (no_subclass_message strategy_name) None)))"
  using assms by (simp add: get_strategy_body_def)

subsection \<open>Strategy registry\<close>

text \<open>
  Claim C9, as the code has it. The names \<^verbatim>\<open>chart_keyword\<close> and
  \<^verbatim>\<open>user_preference_search\<close> always resolve. For any other name: an
  \<^verbatim>\<open>ImportError\<close> or \<^verbatim>\<open>AttributeError\<close> raised by the import or by the
  constructor, and a module without a strategy class, give an \<^verbatim>\<open>ImportError\<close> whose
  message quotes the requested name; an exception of another class raised by the import
  or by the constructor propagates as it is; otherwise the first strategy class of the
  module is instantiated. These are the only errors that \<open>get_strategy\<close> raises.
\<close>

theorem get_strategy_resolution:
  "get_strategy import_module ''chart_keyword'' kwargs = Inr ChartKeywordSearchStrategy
   \<and> get_strategy import_module ''user_preference_search'' kwargs
       = Inr (UserPreferenceSearchStrategy
                (init_strategy (kw_session kwargs) (kw_user_id kwargs)))
   \<and> (strategy_name \<noteq> ''chart_keyword'' \<and> strategy_name \<noteq> ''user_preference_search'' \<longrightarrow>
        (case import_module (''app.services.search_strategies.'' @ strategy_name) of
           Inl e \<Rightarrow>
             get_strategy import_module strategy_name kwargs =
               (if import_or_attribute_error e
                then Inl (Exn ImportError (not_found_message strategy_name) (Some e))
                else Inl e)
         | Inr strategy_module \<Rightarrow>
             (case first_strategy_class strategy_module of
                None \<Rightarrow>
                  get_strategy import_module strategy_name kwargs =
                    Inl (Exn ImportError (not_found_message strategy_name)
                          (Some (Exn ImportError (no_subclass_message strategy_name) None)))
              | Some (Inr made) \<Rightarrow>
                  get_strategy import_module strategy_name kwargs = Inr made
              | Some (Inl e) \<Rightarrow>
                  get_strategy import_module strategy_name kwargs =
                    (if import_or_attribute_error e
                     then Inl (Exn ImportError (not_found_message strategy_name) (Some e))
                     else Inl e))))
   \<and> not_found_message strategy_name =
        ''Could not load search strategy '' @ [CHR 0x27] @ strategy_name @ [CHR 0x27] @
        ''. Ensure the module exists and defines a valid strategy class.''
   \<and> (get_strategy import_module strategy_name kwargs = Inl exc \<longrightarrow>
        (\<exists>c. exc = Exn ImportError (not_found_message strategy_name) (Some c)
              \<and> import_or_attribute_error c)
        \<or> (\<not> import_or_attribute_error exc
            \<and> (import_module (''app.services.search_strategies.'' @ strategy_name) = Inl exc
               \<or> (\<exists>strategy_module.
                    import_module (''app.services.search_strategies.'' @ strategy_name)
                      = Inr strategy_module
                    \<and> first_strategy_class strategy_module = Some (Inl exc)))))"
proof -
  have special: "get_strategy import_module ''chart_keyword'' kwargs = Inr ChartKeywordSearchStrategy"
    "get_strategy import_module ''user_preference_search'' kwargs
       = Inr (UserPreferenceSearchStrategy
                (init_strategy (kw_session kwargs) (kw_user_id kwargs)))"
    by (simp_all add: get_strategy_def get_strategy_body_def)
  have dynamic: "case import_module (''app.services.search_strategies.'' @ strategy_name) of
           Inl e \<Rightarrow>
             get_strategy import_module strategy_name kwargs =
               (if import_or_attribute_error e
                then Inl (Exn ImportError (not_found_message strategy_name) (Some e))
                else Inl e)
         | Inr strategy_module \<Rightarrow>
             (case first_strategy_class strategy_module of
                None \<Rightarrow>
                  get_strategy import_module strategy_name kwargs =
                    Inl (Exn ImportError (not_found_message strategy_name)
                          (Some (Exn ImportError (no_subclass_message strategy_name) None)))
              | Some (Inr made) \<Rightarrow>
                  get_strategy import_module strategy_name kwargs = Inr made
              | Some (Inl e) \<Rightarrow>
                  get_strategy import_module strategy_name kwargs =
                    (if import_or_attribute_error e
                     then Inl (Exn ImportError (not_found_message strategy_name) (Some e))
                     else Inl e))"
    if "strategy_name \<noteq> ''chart_keyword'' \<and> strategy_name \<noteq> ''user_preference_search''"
    using that
    by (simp add: get_strategy_def get_strategy_body_dynamic import_or_attribute_error_def
        split: sum.splits option.splits)
  have msg: "not_found_message strategy_name =
        ''Could not load search strategy '' @ [CHR 0x27] @ strategy_name @ [CHR 0x27] @
        ''. Ensure the module exists and defines a valid strategy class.''"
    by (simp add: not_found_message_def)
  have only: "(\<exists>c. exc = Exn ImportError (not_found_message strategy_name) (Some c)
              \<and> import_or_attribute_error c)
        \<or> (\<not> import_or_attribute_error exc
            \<and> (import_module (''app.services.search_strategies.'' @ strategy_name) = Inl exc
               \<or> (\<exists>strategy_module.
                    import_module (''app.services.search_strategies.'' @ strategy_name)
                      = Inr strategy_module
                    \<and> first_strategy_class strategy_module = Some (Inl exc))))"
    if "get_strategy import_module strategy_name kwargs = Inl exc"
  proof -
    from that special have "strategy_name \<noteq> ''chart_keyword''
        \<and> strategy_name \<noteq> ''user_preference_search''"
      by auto
    with that show ?thesis
      by (auto simp add: get_strategy_def get_strategy_body_dynamic
          import_or_attribute_error_def split: sum.splits option.splits if_splits)
  qed
  from special dynamic msg only show ?thesis by (intro conjI impI) assumption+
qed

text \<open>
  Claim C9 as stated fails for a module that fails to load with an exception that is
  neither an \<^verbatim>\<open>ImportError\<close> nor an \<^verbatim>\<open>AttributeError\<close>: the handler of
  \<open>get_strategy\<close> names these two classes only, so the \<^verbatim>\<open>SyntaxError\<close> of a module
  that does not parse reaches the caller instead of the not-found error.
\<close>

theorem get_strategy_load_failure_counterexample:
  "test_import_module ''app.services.search_strategies.broken''
     = Inl (Exn SyntaxError ''invalid syntax'' None)
   \<and> get_strategy test_import_module ''broken'' no_kwargs
     = Inl (Exn SyntaxError ''invalid syntax'' None)
   \<and> Exn SyntaxError ''invalid syntax'' None
     \<noteq> Exn ImportError (not_found_message ''broken'')
         (Some (Exn SyntaxError ''invalid syntax'' None))"
  by (simp add: get_strategy_def get_strategy_body_def test_import_module_def
      import_or_attribute_error_def)


theorem get_strategy_resolution_witness:
  "get_strategy test_import_module ''does-not-exist'' no_kwargs
     = Inl (Exn ImportError (not_found_message ''does-not-exist'')
         (Some (Exn ModuleNotFoundError
            ''No module named app.services.search_strategies.does-not-exist'' None)))
   \<and> get_strategy test_import_module ''base'' no_kwargs
     = Inl (Exn ImportError (not_found_message ''base'')
         (Some (Exn ImportError (no_subclass_message ''base'') None)))
   \<and> get_strategy test_import_module ''random_keyword'' no_kwargs
     = Inr (DiscoveredStrategy ''RandomKeywordSearchStrategy'')
   \<and> get_strategy test_import_module ''needs_args'' no_kwargs
     = Inl (Exn TypeError ''missing 1 required positional argument'' None)
   \<and> get_strategy test_import_module ''chart_keyword'' no_kwargs = Inr ChartKeywordSearchStrategy"
proof -
  have n1: "''does-not-exist'' \<noteq> ''chart_keyword''
      \<and> ''does-not-exist'' \<noteq> ''user_preference_search''" by simp
  have n2: "''base'' \<noteq> ''chart_keyword'' \<and> ''base'' \<noteq> ''user_preference_search''" by simp
  have n3: "''random_keyword'' \<noteq> ''chart_keyword''
      \<and> ''random_keyword'' \<noteq> ''user_preference_search''" by simp
  have n4: "''needs_args'' \<noteq> ''chart_keyword''
      \<and> ''needs_args'' \<noteq> ''user_preference_search''" by simp
  note T = get_strategy_resolution [where import_module = test_import_module
      and kwargs = no_kwargs and exc = "Exn TypeError [] None"]
  have c1: "get_strategy test_import_module ''does-not-exist'' no_kwargs
     = Inl (Exn ImportError (not_found_message ''does-not-exist'')
         (Some (Exn ModuleNotFoundError
            ''No module named app.services.search_strategies.does-not-exist'' None)))"
    using mp [OF T [where strategy_name = "''does-not-exist''",
          THEN conjunct2, THEN conjunct2, THEN conjunct1] n1]
    by (simp add: test_import_module_def import_or_attribute_error_def)
  have c2: "get_strategy test_import_module ''base'' no_kwargs
     = Inl (Exn ImportError (not_found_message ''base'')
         (Some (Exn ImportError (no_subclass_message ''base'') None)))"
    using mp [OF T [where strategy_name = "''base''",
          THEN conjunct2, THEN conjunct2, THEN conjunct1] n2]
    by (simp add: test_import_module_def)
  have c3: "get_strategy test_import_module ''random_keyword'' no_kwargs
     = Inr (DiscoveredStrategy ''RandomKeywordSearchStrategy'')"
    using mp [OF T [where strategy_name = "''random_keyword''",
          THEN conjunct2, THEN conjunct2, THEN conjunct1] n3]
    by (simp add: test_import_module_def)
  have c4: "get_strategy test_import_module ''needs_args'' no_kwargs
     = Inl (Exn TypeError ''missing 1 required positional argument'' None)"
    using mp [OF T [where strategy_name = "''needs_args''",
          THEN conjunct2, THEN conjunct2, THEN conjunct1] n4]
    by (simp add: test_import_module_def import_or_attribute_error_def)
  have c5: "get_strategy test_import_module ''chart_keyword'' no_kwargs
     = Inr ChartKeywordSearchStrategy"
    by (rule T [where strategy_name = "[]", THEN conjunct1])
  from c1 c2 c3 c4 c5 show ?thesis by (intro conjI)
qed

end
